theory Spec2Isabelle
  imports Main "HOL-Library.Word"
begin

unbundle bit_operations_syntax

section \<open>Overview\<close>

text \<open>
  A shallow embedding of libipset's argument parser, extensions/ipset-5/libipset/parse.c.
  Every parser of the source takes the session, an option kind and a string, writes
  into the data blob of the session or into its log, and returns an \<open>int\<close>: 0 on success
  or a negative error code. The model of a parser is a function from the session (and
  the other arguments) to the pair of the returned code and the session after the call.
  The destructive split of a copy of the input (\<open>*a++ = '\0'\<close>) becomes \<open>take\<close> and \<open>drop\<close>
  at the position of the separator.

  Two things the source does are left out: the \<open>assert\<close>s on the arguments, which the
  theorems respect by calling each parser with an option kind it allows, and the failure
  of \<open>strdup\<close>, which is taken to succeed.
\<close>

section \<open>C strings and the separator tokenizer\<close>

text \<open>
  A C string is modelled by the list of its characters before the terminating NUL.
  A pointer into the string is the offset from its start; \<open>NULL\<close> is \<open>None\<close>.
  \<open>strchr\<close> is the C library function: the offset of the first occurrence.
\<close>

fun strchr :: "string \<Rightarrow> char \<Rightarrow> nat option" where
  "strchr [] c = None"
| "strchr (x # xs) c = (if x = c then Some 0 else map_option Suc (strchr xs c))"

text \<open>
  \<open>ipset_strchr\<close> (parse.c, lines 42-57): for each separator character in turn, the
  first match is returned unless the string starts or ends with that character.
  \<open>str[0]\<close> and \<open>str[strlen(str)-1]\<close> are read only after \<open>strchr\<close> has found a match,
  so the string is not empty there.
\<close>

fun ipset_strchr :: "string \<Rightarrow> string \<Rightarrow> nat option" where
  "ipset_strchr str [] = None"
| "ipset_strchr str (c # sep) =
     (case strchr str c of
        Some m \<Rightarrow>
          if str ! 0 \<noteq> c \<and> str ! (length str - 1) \<noteq> c then Some m
          else ipset_strchr str sep
      | None \<Rightarrow> ipset_strchr str sep)"

text \<open>
  Modelled from the spec: the separator macros of libipset/parse.h, which is not among
  the sources. The spec (4.3) names five single-character separator sets; the characters
  are those the comments and messages of parse.c show (\<open>IP/mask\<close>, \<open>IP-IP\<close>,
  \<open>elem,elem\<close>, \<open>setname,before|after,setname\<close>, "separated by a colon").
\<close>

definition IPSET_CIDR_SEPARATOR :: string where
  "IPSET_CIDR_SEPARATOR = ''/''"

definition IPSET_RANGE_SEPARATOR :: string where
  "IPSET_RANGE_SEPARATOR = ''-''"

definition IPSET_ELEM_SEPARATOR :: string where
  "IPSET_ELEM_SEPARATOR = '',''"

definition IPSET_PROTO_SEPARATOR :: string where
  "IPSET_PROTO_SEPARATOR = '':''"

definition cidr_separator :: "string \<Rightarrow> nat option" where
  "cidr_separator str = ipset_strchr str IPSET_CIDR_SEPARATOR"

definition range_separator :: "string \<Rightarrow> nat option" where
  "range_separator str = ipset_strchr str IPSET_RANGE_SEPARATOR"

definition elem_separator :: "string \<Rightarrow> nat option" where
  "elem_separator str = ipset_strchr str IPSET_ELEM_SEPARATOR"

definition proto_separator :: "string \<Rightarrow> nat option" where
  "proto_separator str = ipset_strchr str IPSET_PROTO_SEPARATOR"

section \<open>The C library's number conversions\<close>

text \<open>
  \<open>strtoull\<close> and \<open>strtol\<close> belong to the C library, not to the repository. They are
  modelled after ISO C 7.22.1.4 in the C locale, with glibc's choices where the standard
  leaves room: white space is skipped, one sign is accepted, base 0 selects 16 after
  \<open>0x\<close>/\<open>0X\<close>, 8 after \<open>0\<close> and 10 otherwise, the longest run of digits of the base is
  consumed, and on overflow the value saturates and \<open>errno\<close> becomes \<open>ERANGE\<close> while the
  end pointer still moves past all digits. With no digit at all the end pointer is the
  start of the string, except after a bare \<open>0x\<close>, where the \<open>0\<close> alone is the number.
\<close>

type_synonym u8 = "8 word"
type_synonym u16 = "16 word"
type_synonym u32 = "32 word"
type_synonym u64 = "64 word"

definition isspace_c :: "char \<Rightarrow> bool" where
  "isspace_c c \<longleftrightarrow>
     c = CHR '' '' \<or> c = CHR 0x09 \<or> c = CHR 0x0A \<or> c = CHR 0x0B \<or> c = CHR 0x0C \<or> c = CHR 0x0D"

definition digit_val :: "char \<Rightarrow> nat option" where
  "digit_val c =
     (let n = (of_char c :: nat) in
      if 48 \<le> n \<and> n \<le> 57 then Some (n - 48)
      else if 97 \<le> n \<and> n \<le> 122 then Some (n - 87)
      else if 65 \<le> n \<and> n \<le> 90 then Some (n - 55)
      else None)"

text \<open>The digit loop: value so far and number of digits consumed, without a bound.\<close>

fun strto_digits :: "nat \<Rightarrow> string \<Rightarrow> nat \<Rightarrow> nat \<Rightarrow> nat \<times> nat" where
  "strto_digits base [] acc n = (acc, n)"
| "strto_digits base (c # cs) acc n =
     (case digit_val c of
        Some d \<Rightarrow> if d < base then strto_digits base cs (acc * base + d) (Suc n) else (acc, n)
      | None \<Rightarrow> (acc, n))"

text \<open>
  The scan shared by both conversions: (negative sign seen, magnitude, end offset).
\<close>

definition strto_scan :: "nat \<Rightarrow> string \<Rightarrow> bool \<times> nat \<times> nat" where
  "strto_scan base0 str =
     (let ws = length (takeWhile isspace_c str);
          s1 = drop ws str;
          neg = (case s1 of [] \<Rightarrow> False | c # _ \<Rightarrow> c = CHR ''-'');
          sg = (case s1 of [] \<Rightarrow> 0 | c # _ \<Rightarrow> if c = CHR ''-'' \<or> c = CHR ''+'' then 1 else 0);
          s2 = drop sg s1;
          pfx = ((base0 = 0 \<or> base0 = 16) \<and>
                 (case s2 of c # d # _ \<Rightarrow> c = CHR ''0'' \<and> (d = CHR ''x'' \<or> d = CHR ''X'') | _ \<Rightarrow> False));
          base = (if pfx then 16
                  else if base0 = 0 then (case s2 of [] \<Rightarrow> 10 | c # _ \<Rightarrow> if c = CHR ''0'' then 8 else 10)
                  else base0);
          s3 = (if pfx then drop 2 s2 else s2)
      in case strto_digits base s3 0 0 of
           (v, n) \<Rightarrow>
             if n = 0 then (if pfx then (False, 0, ws + sg + 1) else (False, 0, 0))
             else (neg, v, ws + sg + (if pfx then 2 else 0) + n))"

text \<open>\<open>strtoull\<close>: (value, end offset, \<open>errno == ERANGE\<close>); \<open>unsigned long long\<close> has 64 bits.\<close>

definition strtoull :: "string \<Rightarrow> nat \<Rightarrow> u64 \<times> nat \<times> bool" where
  "strtoull str base =
     (case strto_scan base str of
        (neg, v, e) \<Rightarrow>
          if v > 18446744073709551615 then (- 1, e, True)
          else (if neg then - of_nat v else of_nat v, e, False))"

text \<open>\<open>strtol\<close>: (value, end offset, \<open>errno == ERANGE\<close>); \<open>long\<close> has 64 bits (LP64).\<close>

definition strtol :: "string \<Rightarrow> nat \<Rightarrow> int \<times> nat \<times> bool" where
  "strtol str base =
     (case strto_scan base str of
        (neg, v, e) \<Rightarrow>
          if neg then (if v > 9223372036854775808 then (- 9223372036854775808, e, True)
                       else (- int v, e, False))
          else (if v > 9223372036854775807 then (9223372036854775807, e, True)
                else (int v, e, False)))"

text \<open>\<open>strcasecmp(a, b) == 0\<close>: equality up to the case of ASCII letters.\<close>

definition tolower_c :: "char \<Rightarrow> char" where
  "tolower_c c =
     (let n = (of_char c :: nat) in if 65 \<le> n \<and> n \<le> 90 then char_of (n + 32) else c)"

definition strcasecmp_eq :: "string \<Rightarrow> string \<Rightarrow> bool" where
  "strcasecmp_eq a b \<longleftrightarrow> map tolower_c a = map tolower_c b"

section \<open>The attribute store and the session\<close>

text \<open>
  Option kinds (\<open>enum ipset_opt\<close> of libipset/data.h): the ones parse.c names.
  \<open>IPSET_OPT_NONE\<close> is the zero value, which \<open>ipset_parse_elem\<close> reads as "not optional".
\<close>

datatype ipset_opt =
    IPSET_OPT_NONE | IPSET_SETNAME | IPSET_OPT_TYPENAME | IPSET_OPT_FAMILY
  | IPSET_OPT_IP | IPSET_OPT_IP_TO | IPSET_OPT_CIDR | IPSET_OPT_PORT | IPSET_OPT_PORT_TO
  | IPSET_OPT_TIMEOUT | IPSET_OPT_NETMASK | IPSET_OPT_ETHER | IPSET_OPT_NAME
  | IPSET_OPT_NAMEREF | IPSET_OPT_IP2 | IPSET_OPT_CIDR2 | IPSET_OPT_PROTO
  | IPSET_OPT_BEFORE | IPSET_OPT_SETNAME2 | IPSET_OPT_TYPE

datatype family = AF_UNSPEC | AF_INET | AF_INET6

datatype in_addr = In4 u32 | In6 "128 word"

text \<open>
  The parser functions of parse.c that a type descriptor or an option table can point
  to. A function pointer is modelled by the name of the function it points to, so that
  \<open>parse == ipset_parse_ignored\<close> is an equality of names.
\<close>

datatype ipset_parsefn =
    PARSE_ether | PARSE_tcp_port | PARSE_single_tcp_port | PARSE_proto | PARSE_icmp
  | PARSE_icmpv6 | PARSE_proto_port | PARSE_family | PARSE_ip | PARSE_single_ip
  | PARSE_net | PARSE_range | PARSE_netrange | PARSE_iprange | PARSE_ipnet
  | PARSE_ip4_single6 | PARSE_iptimeout | PARSE_name_compat | PARSE_setname
  | PARSE_before | PARSE_after | PARSE_uint32 | PARSE_uint8 | PARSE_netmask
  | PARSE_flag | PARSE_ignored

text \<open>
  Set dimensions and type descriptors (\<open>struct ipset_elem\<close>, \<open>struct ipset_type\<close> of
  libipset/types.h), with the fields \<open>ipset_parse_elem\<close> reads. The enumerators
  \<open>IPSET_DIM_ONE\<close>, \<open>IPSET_DIM_TWO\<close>, \<open>IPSET_DIM_THREE\<close> index the \<open>elem\<close> array and are
  compared with \<open>>\<close>; \<open>dim_index\<close> is their numeric order.
\<close>

datatype ipset_dim = IPSET_DIM_ONE | IPSET_DIM_TWO | IPSET_DIM_THREE

fun dim_index :: "ipset_dim \<Rightarrow> nat" where
  "dim_index IPSET_DIM_ONE = 0"
| "dim_index IPSET_DIM_TWO = 1"
| "dim_index IPSET_DIM_THREE = 2"

record ipset_elem =
  elem_parse :: "ipset_parsefn option"
  elem_opt :: ipset_opt

record ipset_type =
  type_name :: string
  type_dimension :: ipset_dim
  type_elem :: "ipset_dim \<Rightarrow> ipset_elem"
  type_compat_parse_elem :: "ipset_parsefn option"

datatype ipset_value =
    V_u8 u8 | V_u16 u16 | V_u32 u32 | V_family family | V_addr in_addr
  | V_ether "u8 list" | V_str string | V_flag | V_type ipset_type

text \<open>
  The texts a parser reports, one constructor for each format string of parse.c, with
  its string and number arguments. \<open>MSG_multiple_addresses\<close> and \<open>MSG_ignored\<close> are
  warnings; \<open>MSG_typecode\<close>, \<open>MSG_nameref_syntax\<close>, \<open>MSG_type_unknown\<close> and
  \<open>MSG_missing_parser\<close> are errors reported through \<open>ipset_err\<close>; all others are errors
  reported through \<open>syntax_err\<close>, which puts "Syntax error: " in front.
\<close>

datatype ipset_msg =
    MSG_out_of_range string nat nat
  | MSG_invalid_number string
  | MSG_ether string
  | MSG_portname string string
  | MSG_proto_name string
  | MSG_proto_unsupported string
  | MSG_typecode string string
  | MSG_icmp_inet_only
  | MSG_icmpv6_inet6_only
  | MSG_pseudo_port
  | MSG_family_multiple
  | MSG_family_unknown string
  | MSG_resolve string family
  | MSG_resolving_failed string family
  | MSG_not_resolved string family
  | MSG_multiple_addresses string
  | MSG_plain_ip string
  | MSG_netblock string
  | MSG_ip_range string
  | MSG_cidr_or_range string
  | MSG_ip_or_range string
  | MSG_ip_or_cidr string
  | MSG_timeout_mixed
  | MSG_missing_separator string
  | MSG_setname_too_long string nat
  | MSG_before_after_mixed
  | MSG_nameref_syntax
  | MSG_netmask_range nat nat
  | MSG_ignored string
  | MSG_already_specified string
  | MSG_type_unknown
  | MSG_second_missing string
  | MSG_elem_separator_none string string
  | MSG_third_missing string
  | MSG_two_separators string string
  | MSG_three_separators string string
  | MSG_missing_parser string

datatype ipset_report = Error_report ipset_msg | Warning_report ipset_msg

text \<open>
  Modelled from the spec: the attribute store of libipset/data.c and the session of
  libipset/session.c, which are not among the sources. Spec 3 and 4.1: a mapping from
  option kind to typed value, a parallel set-bits mask recording which option kinds
  have been assigned, a family defaulting to "unspecified"; every successful \<open>set\<close>
  raises the set-bit and no operation clears one. The duplicate check is made by the
  call sites before a parser is invoked, "not inside the store itself" (4.1), so
  \<open>ipset_data_set\<close> itself writes the value, raises the bit and returns 0. The store
  also keeps the option kinds already warned about as ignored (4.4, last item). The
  session owns one store and the diagnostic log; \<open>ipset_err\<close> and \<open>ipset_warn\<close>
  append to the log, \<open>ipset_err\<close> returns the negative error code \<open>-1\<close>, and
  \<open>ipset_session_report_reset\<close> empties the log.
\<close>

record ipset_data =
  opt_values :: "ipset_opt \<Rightarrow> ipset_value option"
  bits :: "ipset_opt set"
  ignored :: "ipset_opt set"

record ipset_session =
  data :: ipset_data
  report :: "ipset_report list"

definition ipset_data_set :: "ipset_data \<Rightarrow> ipset_opt \<Rightarrow> ipset_value \<Rightarrow> int \<times> ipset_data" where
  "ipset_data_set d opt v =
     (0, d\<lparr>opt_values := (opt_values d)(opt \<mapsto> v), bits := insert opt (bits d)\<rparr>)"

definition ipset_data_get :: "ipset_data \<Rightarrow> ipset_opt \<Rightarrow> ipset_value option" where
  "ipset_data_get d opt = opt_values d opt"

definition ipset_data_flags_test :: "ipset_data \<Rightarrow> ipset_opt \<Rightarrow> bool" where
  "ipset_data_flags_test d opt \<longleftrightarrow> opt \<in> bits d"

definition ipset_data_flags_set :: "ipset_data \<Rightarrow> ipset_opt \<Rightarrow> ipset_data" where
  "ipset_data_flags_set d opt = d\<lparr>bits := insert opt (bits d)\<rparr>"

definition ipset_data_family :: "ipset_data \<Rightarrow> family" where
  "ipset_data_family d =
     (case opt_values d IPSET_OPT_FAMILY of Some (V_family f) \<Rightarrow> f | _ \<Rightarrow> AF_UNSPEC)"

definition ipset_data_ignored :: "ipset_data \<Rightarrow> ipset_opt \<Rightarrow> bool \<times> ipset_data" where
  "ipset_data_ignored d opt = (opt \<in> ignored d, d\<lparr>ignored := insert opt (ignored d)\<rparr>)"

definition ipset_session_data_set ::
  "ipset_session \<Rightarrow> ipset_opt \<Rightarrow> ipset_value \<Rightarrow> int \<times> ipset_session" where
  "ipset_session_data_set session opt v =
     (case ipset_data_set (data session) opt v of (err, d) \<Rightarrow> (err, session\<lparr>data := d\<rparr>))"

definition ipset_session_data_get :: "ipset_session \<Rightarrow> ipset_opt \<Rightarrow> ipset_value option" where
  "ipset_session_data_get session opt = ipset_data_get (data session) opt"

definition ipset_err :: "ipset_session \<Rightarrow> ipset_msg \<Rightarrow> int \<times> ipset_session" where
  "ipset_err session m = (- 1, session\<lparr>report := report session @ [Error_report m]\<rparr>)"

definition syntax_err :: "ipset_session \<Rightarrow> ipset_msg \<Rightarrow> int \<times> ipset_session" where
  "syntax_err session m = ipset_err session m"

definition ipset_warn :: "ipset_session \<Rightarrow> ipset_msg \<Rightarrow> int \<times> ipset_session" where
  "ipset_warn session m = (- 1, session\<lparr>report := report session @ [Warning_report m]\<rparr>)"

definition ipset_session_report_reset :: "ipset_session \<Rightarrow> ipset_session" where
  "ipset_session_report_reset session = session\<lparr>report := []\<rparr>"

text \<open>
  What parse.c asks of the system and of the rest of libipset is a parameter of the
  model: the services database (\<open>getservbyname\<close>, giving the port in host byte order as
  \<open>ntohs(service->s_port)\<close>), the protocols database (\<open>getprotobyname\<close>, giving
  \<open>p_proto\<close>), the resolver (\<open>getaddrinfo\<close> with the hinted family; \<open>None\<close> is a non-zero
  return, otherwise the result list), the ICMP and ICMPv6 name tables of libipset
  (\<open>name_to_icmp\<close>, \<open>name_to_icmpv6\<close>; \<open>None\<close> is a negative return) and the constant
  \<open>IPSET_MAXNAMELEN\<close> of the kernel header.
\<close>

record addrinfo =
  ai_family :: family
  ai_addrlen :: nat
  ai_addr :: in_addr

record ipset_env =
  getservbyname :: "string \<Rightarrow> string \<Rightarrow> u16 option"
  getprotobyname :: "string \<Rightarrow> int option"
  getaddrinfo :: "string \<Rightarrow> family \<Rightarrow> addrinfo list option"
  name_to_icmp :: "string \<Rightarrow> u16 option"
  name_to_icmpv6 :: "string \<Rightarrow> u16 option"
  IPSET_MAXNAMELEN :: nat

section \<open>Numbers (parse.c, lines 64-148)\<close>

text \<open>
  \<open>string_to_number_ll\<close>: \<open>*end == '\0'\<close> is "the end offset is the length of the
  string". The last argument is the content of \<open>*ret\<close> before the call, which the
  function leaves alone when it fails. A range failure sets \<open>errno\<close> to \<open>ERANGE\<close>
  itself, so the first message is chosen when the conversion overflowed or the number
  was parsed and refused.
\<close>

definition ULLONG_MAX :: nat where
  "ULLONG_MAX = 18446744073709551615"

definition string_to_number_ll ::
  "ipset_session \<Rightarrow> string \<Rightarrow> u64 \<Rightarrow> u64 \<Rightarrow> u64 \<Rightarrow> int \<times> u64 \<times> ipset_session" where
  "string_to_number_ll session str minv maxv ret =
     (case strtoull str 0 of
        (number, e, erange) \<Rightarrow>
          let parsed = (e = length str \<and> e \<noteq> 0 \<and> \<not> erange) in
          if parsed \<and> minv \<le> number \<and> (maxv = 0 \<or> number \<le> maxv) then (0, number, session)
          else if (erange \<or> parsed) \<and> maxv \<noteq> 0 then
            (case syntax_err session (MSG_out_of_range str (unat minv) (unat maxv)) of
               (err, s) \<Rightarrow> (err, ret, s))
          else if erange \<or> parsed then
            (case syntax_err session (MSG_out_of_range str (unat minv) ULLONG_MAX) of
               (err, s) \<Rightarrow> (err, ret, s))
          else
            (case syntax_err session (MSG_invalid_number str) of
               (err, s) \<Rightarrow> (err, ret, s)))"

text \<open>
  The bounded instances start from \<open>num = 0\<close> and store \<open>num\<close>, truncated to the width
  of the result, whether the conversion failed or not.
\<close>

definition string_to_u8 :: "ipset_session \<Rightarrow> string \<Rightarrow> int \<times> u8 \<times> ipset_session" where
  "string_to_u8 session str =
     (case string_to_number_ll session str 0 255 0 of (err, num, s) \<Rightarrow> (err, ucast num, s))"

definition string_to_cidr ::
  "ipset_session \<Rightarrow> string \<Rightarrow> u8 \<Rightarrow> u8 \<Rightarrow> int \<times> u8 \<times> ipset_session" where
  "string_to_cidr session str minv maxv =
     (case string_to_u8 session str of
        (err, ret, s) \<Rightarrow>
          if err = 0 \<and> (ret < minv \<or> ret > maxv) then
            (case syntax_err s (MSG_out_of_range str (unat minv) (unat maxv)) of
               (err', s') \<Rightarrow> (err', ret, s'))
          else (err, ret, s))"

definition string_to_u16 :: "ipset_session \<Rightarrow> string \<Rightarrow> int \<times> u16 \<times> ipset_session" where
  "string_to_u16 session str =
     (case string_to_number_ll session str 0 65535 0 of (err, num, s) \<Rightarrow> (err, ucast num, s))"

definition string_to_u32 :: "ipset_session \<Rightarrow> string \<Rightarrow> int \<times> u32 \<times> ipset_session" where
  "string_to_u32 session str =
     (case string_to_number_ll session str 0 4294967295 0 of
        (err, num, s) \<Rightarrow> (err, ucast num, s))"

section \<open>Ethernet addresses (parse.c, lines 161-192)\<close>

definition ETH_ALEN :: nat where
  "ETH_ALEN = 6"

text \<open>
  The loop over the six octets. \<open>end == str + i * 3 + 2\<close> says that \<open>strtol\<close>, started at
  offset \<open>i * 3\<close>, stopped two characters later; \<open>*end\<close> is then the character at offset
  \<open>i * 3 + 2\<close>, or the terminator when that offset is the length. \<open>None\<close> is \<open>goto error\<close>.
\<close>

function ether_loop :: "string \<Rightarrow> nat \<Rightarrow> u8 list \<Rightarrow> u8 list option" where
  "ether_loop str i ether =
     (if i < ETH_ALEN then
        (case strtol (drop (i * 3) str) 16 of
           (number, e, erange) \<Rightarrow>
             if e = 2
                \<and> ((i * 3 + 2 < length str \<and> str ! (i * 3 + 2) = CHR '':'')
                     \<or> i * 3 + 2 = length str)
                \<and> 0 \<le> number \<and> number \<le> 255
             then ether_loop str (Suc i) (ether[i := word_of_int number])
             else None)
      else Some ether)"
  by pat_completeness auto
termination
  by (relation "measure (\<lambda>(str, i, ether). ETH_ALEN - i)") auto

definition ipset_parse_ether :: "ipset_session \<Rightarrow> ipset_opt \<Rightarrow> string \<Rightarrow> int \<times> ipset_session" where
  "ipset_parse_ether session opt str =
     (if length str \<noteq> ETH_ALEN * 3 - 1 then syntax_err session (MSG_ether str)
      else case ether_loop str 0 (replicate ETH_ALEN 0) of
             None \<Rightarrow> syntax_err session (MSG_ether str)
           | Some ether \<Rightarrow> ipset_session_data_set session opt (V_ether ether))"

section \<open>Ports, protocols and ICMP (parse.c, lines 194-544)\<close>

definition parse_portname ::
  "ipset_env \<Rightarrow> ipset_session \<Rightarrow> string \<Rightarrow> u16 \<Rightarrow> string \<Rightarrow> int \<times> u16 \<times> ipset_session" where
  "parse_portname env session str port proto =
     (case getservbyname env str proto of
        Some p \<Rightarrow> (0, p, session)
      | None \<Rightarrow>
          (case syntax_err session (MSG_portname str proto) of (err, s) \<Rightarrow> (err, port, s)))"

text \<open>
  \<open>ipset_parse_port\<close>: the number first, the service name if that fails; the log is
  emptied when the call succeeds in the end.
\<close>

definition ipset_parse_port ::
  "ipset_env \<Rightarrow> ipset_session \<Rightarrow> ipset_opt \<Rightarrow> string \<Rightarrow> string \<Rightarrow> int \<times> ipset_session" where
  "ipset_parse_port env session opt str proto =
     (case string_to_u16 session str of
        (err1, port1, s1) \<Rightarrow>
          (case (if err1 = 0 then (err1, port1, s1) else parse_portname env s1 str port1 proto) of
             (err2, port, s2) \<Rightarrow>
               (case (if err2 = 0 then ipset_session_data_set s2 opt (V_u16 port) else (err2, s2)) of
                  (err, s3) \<Rightarrow>
                    if err = 0 then (err, ipset_session_report_reset s3) else (err, s3))))"

text \<open>
  \<open>ipset_parse_tcpudp_port\<close>: \<open>*a++ = '\0'\<close> cuts the copy at the separator, so \<open>tmp\<close> is
  the text before it and \<open>a\<close> the text after it.
\<close>

definition ipset_parse_tcpudp_port ::
  "ipset_env \<Rightarrow> ipset_session \<Rightarrow> ipset_opt \<Rightarrow> string \<Rightarrow> string \<Rightarrow> int \<times> ipset_session" where
  "ipset_parse_tcpudp_port env session opt str proto =
     (case range_separator str of
        Some i \<Rightarrow>
          (case ipset_parse_port env session IPSET_OPT_PORT_TO (drop (Suc i) str) proto of
             (err, s1) \<Rightarrow>
               if err \<noteq> 0 then (err, s1)
               else ipset_parse_port env s1 opt (take i str) proto)
      | None \<Rightarrow> ipset_parse_port env session opt str proto)"

definition ipset_parse_tcp_port ::
  "ipset_env \<Rightarrow> ipset_session \<Rightarrow> ipset_opt \<Rightarrow> string \<Rightarrow> int \<times> ipset_session" where
  "ipset_parse_tcp_port env session opt str = ipset_parse_tcpudp_port env session opt str ''TCP''"

definition ipset_parse_single_tcp_port ::
  "ipset_env \<Rightarrow> ipset_session \<Rightarrow> ipset_opt \<Rightarrow> string \<Rightarrow> int \<times> ipset_session" where
  "ipset_parse_single_tcp_port env session opt str = ipset_parse_port env session opt str ''TCP''"

definition ipset_parse_proto ::
  "ipset_env \<Rightarrow> ipset_session \<Rightarrow> ipset_opt \<Rightarrow> string \<Rightarrow> int \<times> ipset_session" where
  "ipset_parse_proto env session opt str =
     (case getprotobyname env (if strcasecmp_eq str ''icmpv6'' then ''ipv6-icmp'' else str) of
        None \<Rightarrow> syntax_err session (MSG_proto_name str)
      | Some p_proto \<Rightarrow>
          let proto = (word_of_int p_proto :: u8) in
          if proto = 0 then syntax_err session (MSG_proto_unsupported str)
          else ipset_session_data_set session opt (V_u8 proto))"

text \<open>
  \<open>parse_icmp_typecode\<close>: after the cut, \<open>a\<close> (the text after the separator) is
  converted into \<open>type\<close> and \<open>tmp\<close> (the text before it) into \<open>code\<close>.
\<close>

definition parse_icmp_typecode ::
  "ipset_session \<Rightarrow> ipset_opt \<Rightarrow> string \<Rightarrow> string \<Rightarrow> int \<times> ipset_session" where
  "parse_icmp_typecode session opt str family =
     (case cidr_separator str of
        None \<Rightarrow> ipset_err session (MSG_typecode str family)
      | Some i \<Rightarrow>
          (case string_to_u8 session (drop (Suc i) str) of
             (err1, icmp_type, s1) \<Rightarrow>
               if err1 \<noteq> 0 then (err1, s1)
               else
                 (case string_to_u8 s1 (take i str) of
                    (err2, icmp_code, s2) \<Rightarrow>
                      if err2 \<noteq> 0 then (err2, s2)
                      else ipset_session_data_set s2 opt
                             (V_u16 (push_bit 8 (ucast icmp_type) OR ucast icmp_code)))))"

definition ipset_parse_icmp ::
  "ipset_env \<Rightarrow> ipset_session \<Rightarrow> ipset_opt \<Rightarrow> string \<Rightarrow> int \<times> ipset_session" where
  "ipset_parse_icmp env session opt str =
     (case name_to_icmp env str of
        None \<Rightarrow> parse_icmp_typecode session opt str ''ICMP''
      | Some typecode \<Rightarrow> ipset_session_data_set session opt (V_u16 typecode))"

definition ipset_parse_icmpv6 ::
  "ipset_env \<Rightarrow> ipset_session \<Rightarrow> ipset_opt \<Rightarrow> string \<Rightarrow> int \<times> ipset_session" where
  "ipset_parse_icmpv6 env session opt str =
     (case name_to_icmpv6 env str of
        None \<Rightarrow> parse_icmp_typecode session opt str ''ICMPv6''
      | Some typecode \<Rightarrow> ipset_session_data_set session opt (V_u16 typecode))"

definition IPPROTO_ICMP :: u8 where "IPPROTO_ICMP = 1"
definition IPPROTO_TCP :: u8 where "IPPROTO_TCP = 6"
definition IPPROTO_UDP :: u8 where "IPPROTO_UDP = 17"
definition IPPROTO_ICMPV6 :: u8 where "IPPROTO_ICMPV6 = 58"

text \<open>
  \<open>ipset_parse_proto_port\<close>. In the ICMP, ICMPv6 and default cases the result of
  \<open>syntax_err\<close> is not assigned: the message is logged and \<open>goto error\<close> returns \<open>err\<close>,
  which is still the 0 of the successful \<open>ipset_parse_proto\<close>. The protocol is read back
  from the store right after \<open>ipset_parse_proto\<close> has stored it; the last branch of the
  model (no 8-bit protocol in the store) is never taken, see \<open>ipset_parse_proto_stores\<close>.
\<close>

definition ipset_parse_proto_port ::
  "ipset_env \<Rightarrow> ipset_session \<Rightarrow> ipset_opt \<Rightarrow> string \<Rightarrow> int \<times> ipset_session" where
  "ipset_parse_proto_port env session opt str =
     (case proto_separator str of
        Some i \<Rightarrow>
          let family = ipset_data_family (data session);
              tmp = take i str;
              a = drop (Suc i) str
          in (case ipset_parse_proto env session IPSET_OPT_PROTO tmp of
                (err, s1) \<Rightarrow>
                  if err \<noteq> 0 then (err, s1)
                  else
                    (case ipset_data_get (data s1) IPSET_OPT_PROTO of
                       Some (V_u8 p) \<Rightarrow>
                         if p = IPPROTO_TCP then ipset_parse_tcpudp_port env s1 opt a tmp
                         else if p = IPPROTO_UDP then ipset_parse_tcpudp_port env s1 opt a tmp
                         else if p = IPPROTO_ICMP then
                           (if family \<noteq> AF_INET then (err, snd (syntax_err s1 MSG_icmp_inet_only))
                            else ipset_parse_icmp env s1 opt a)
                         else if p = IPPROTO_ICMPV6 then
                           (if family \<noteq> AF_INET6 then (err, snd (syntax_err s1 MSG_icmpv6_inet6_only))
                            else ipset_parse_icmpv6 env s1 opt a)
                         else
                           (if a \<noteq> ''0'' then (err, snd (syntax_err s1 MSG_pseudo_port))
                            else (err, s1\<lparr>data := ipset_data_flags_set (data s1) opt\<rparr>))
                     | _ \<Rightarrow> (err, s1)))
      | None \<Rightarrow>
          (case ipset_data_set (data session) IPSET_OPT_PROTO (V_u8 IPPROTO_TCP) of
             (err, d) \<Rightarrow>
               if err \<noteq> 0 then (err, session\<lparr>data := d\<rparr>)
               else ipset_parse_tcpudp_port env (session\<lparr>data := d\<rparr>) opt str ''TCP''))"

definition ipset_parse_family :: "ipset_session \<Rightarrow> ipset_opt \<Rightarrow> string \<Rightarrow> int \<times> ipset_session" where
  "ipset_parse_family session opt str =
     (let s0 = (if ipset_data_flags_test (data session) IPSET_OPT_FAMILY
                then snd (syntax_err session MSG_family_multiple) else session)
      in if str = ''inet'' \<or> str = ''ipv4'' \<or> str = ''-4'' then
           (case ipset_data_set (data s0) opt (V_family AF_INET) of
              (err, d) \<Rightarrow> (err, s0\<lparr>data := d\<rparr>))
         else if str = ''inet6'' \<or> str = ''ipv6'' \<or> str = ''-6'' then
           (case ipset_data_set (data s0) opt (V_family AF_INET6) of
              (err, d) \<Rightarrow> (err, s0\<lparr>data := d\<rparr>))
         else if str = ''any'' \<or> str = ''unspec'' then
           (case ipset_data_set (data s0) opt (V_family AF_UNSPEC) of
              (err, d) \<Rightarrow> (err, s0\<lparr>data := d\<rparr>))
         else syntax_err s0 (MSG_family_unknown str))"

section \<open>Addresses, networks and ranges (parse.c, lines 585-1025)\<close>

definition EINVAL :: int where
  "EINVAL = 22"

definition call_getaddrinfo ::
  "ipset_env \<Rightarrow> ipset_session \<Rightarrow> string \<Rightarrow> family \<Rightarrow> addrinfo list option \<times> ipset_session" where
  "call_getaddrinfo env session str family =
     (case getaddrinfo env str family of
        None \<Rightarrow> (None, snd (syntax_err session (MSG_resolve str family)))
      | Some res \<Rightarrow> (Some res, session))"

text \<open>
  The loop of \<open>get_addrinfo\<close> over the result list, with \<open>found\<close> and \<open>err\<close> as loop
  state. \<open>addrlen\<close> is \<open>sizeof(struct sockaddr_in)\<close> (16) or \<open>sizeof(struct sockaddr_in6)\<close>
  (28).
\<close>

fun get_addrinfo_loop ::
  "ipset_session \<Rightarrow> ipset_opt \<Rightarrow> string \<Rightarrow> family \<Rightarrow> nat \<Rightarrow> addrinfo list \<Rightarrow> nat \<Rightarrow> int
     \<Rightarrow> nat \<times> int \<times> ipset_session" where
  "get_addrinfo_loop session opt str family addrlen [] found err = (found, err, session)"
| "get_addrinfo_loop session opt str family addrlen (i # rest) found err =
     (if ai_family i \<noteq> family \<or> ai_addrlen i \<noteq> addrlen then
        get_addrinfo_loop session opt str family addrlen rest found err
      else if found = 0 then
        (case ipset_session_data_set session opt (V_addr (ai_addr i)) of
           (err', s) \<Rightarrow> get_addrinfo_loop s opt str family addrlen rest (found + 1) err')
      else if found = 1 then
        get_addrinfo_loop (snd (ipset_warn session (MSG_multiple_addresses str)))
          opt str family addrlen rest (found + 1) err
      else get_addrinfo_loop session opt str family addrlen rest (found + 1) err)"

definition get_addrinfo ::
  "ipset_env \<Rightarrow> ipset_session \<Rightarrow> ipset_opt \<Rightarrow> string \<Rightarrow> family \<Rightarrow> int \<times> ipset_session" where
  "get_addrinfo env session opt str family =
     (let addrlen = (if family = AF_INET then 16 else 28) in
      case call_getaddrinfo env session str family of
        (None, s1) \<Rightarrow> (EINVAL, snd (syntax_err s1 (MSG_resolving_failed str family)))
      | (Some info, s1) \<Rightarrow>
          (case get_addrinfo_loop s1 opt str family addrlen info 0 0 of
             (found, err, s2) \<Rightarrow>
               if found = 0 then syntax_err s2 (MSG_not_resolved str family)
               else (err, s2)))"

text \<open>
  The code at the label \<open>out\<close> of \<open>parse_ipaddr\<close>: the value returned for the current
  \<open>aerr\<close> and \<open>err\<close>.
\<close>

definition parse_ipaddr_out :: "int \<Rightarrow> int \<Rightarrow> int" where
  "parse_ipaddr_out aerr err =
     (if aerr \<noteq> EINVAL then err else if aerr \<noteq> 0 then - 1 else err)"

text \<open>
  \<open>parse_ipaddr\<close>. The first part computes \<open>err\<close>, the session, \<open>tmp\<close> and, for a range,
  \<open>a\<close>; \<open>aerr\<close> is still \<open>EINVAL\<close> when the CIDR part fails.
\<close>

definition parse_ipaddr ::
  "ipset_env \<Rightarrow> ipset_session \<Rightarrow> ipset_opt \<Rightarrow> string \<Rightarrow> family \<Rightarrow> int \<times> ipset_session" where
  "parse_ipaddr env session opt str family =
     (let m = (if family = AF_INET then 32 else 128 :: u8);
          copt = (if opt = IPSET_OPT_IP then IPSET_OPT_CIDR else IPSET_OPT_CIDR2)
      in case (case cidr_separator str of
                 Some i \<Rightarrow>
                   (case string_to_cidr session (drop (Suc i) str) 0 m of
                      (err, m', s1) \<Rightarrow>
                        if err \<noteq> 0 then (err, s1, take i str, None)
                        else (case ipset_session_data_set s1 copt (V_u8 m') of
                                (err', s2) \<Rightarrow> (err', s2, take i str, None)))
               | None \<Rightarrow>
                   (case range_separator str of
                      Some j \<Rightarrow> (0, session, take j str, Some (drop (Suc j) str))
                    | None \<Rightarrow> (0, session, str, None)))
         of (err, s, tmp, a) \<Rightarrow>
              if err \<noteq> 0 then (parse_ipaddr_out EINVAL err, s)
              else
                (case get_addrinfo env s opt tmp family of
                   (aerr, s1) \<Rightarrow>
                     (case a of
                        None \<Rightarrow> (parse_ipaddr_out aerr err, s1)
                      | Some a' \<Rightarrow>
                          if aerr \<noteq> 0 then (parse_ipaddr_out aerr err, s1)
                          else
                            (case get_addrinfo env s1 IPSET_OPT_IP_TO a' family of
                               (aerr', s2) \<Rightarrow> (parse_ipaddr_out aerr' err, s2)))))"

datatype ipaddr_type = IPADDR_ANY | IPADDR_PLAIN | IPADDR_NET | IPADDR_RANGE

text \<open>
  \<open>cidr_hostaddr\<close> compares the text from the separator on with \<open>/32\<close> or \<open>/128\<close>. It
  is called only where \<open>cidr_separator\<close> has found a separator.
\<close>

definition cidr_hostaddr :: "string \<Rightarrow> family \<Rightarrow> bool" where
  "cidr_hostaddr str family =
     (case cidr_separator str of
        Some i \<Rightarrow> if family = AF_INET then drop i str = ''/32'' else drop i str = ''/128''
      | None \<Rightarrow> False)"

definition parse_ip ::
  "ipset_env \<Rightarrow> ipset_session \<Rightarrow> ipset_opt \<Rightarrow> string \<Rightarrow> ipaddr_type \<Rightarrow> int \<times> ipset_session" where
  "parse_ip env session opt str addrtype =
     (let family0 = ipset_data_family (data session);
          family = (if family0 = AF_UNSPEC then AF_INET else family0);
          s0 = (if family0 = AF_UNSPEC
                then session\<lparr>data := snd (ipset_data_set (data session) IPSET_OPT_FAMILY (V_family AF_INET))\<rparr>
                else session)
      in case addrtype of
           IPADDR_PLAIN \<Rightarrow>
             if range_separator str \<noteq> None
                \<or> (cidr_separator str \<noteq> None \<and> \<not> cidr_hostaddr str family)
             then syntax_err s0 (MSG_plain_ip str)
             else parse_ipaddr env s0 opt str family
         | IPADDR_NET \<Rightarrow>
             if cidr_separator str = None \<or> range_separator str \<noteq> None
             then syntax_err s0 (MSG_netblock str)
             else parse_ipaddr env s0 opt str family
         | IPADDR_RANGE \<Rightarrow>
             if range_separator str = None \<or> cidr_separator str \<noteq> None
             then syntax_err s0 (MSG_ip_range str)
             else parse_ipaddr env s0 opt str family
         | IPADDR_ANY \<Rightarrow> parse_ipaddr env s0 opt str family)"

definition ipset_parse_ip ::
  "ipset_env \<Rightarrow> ipset_session \<Rightarrow> ipset_opt \<Rightarrow> string \<Rightarrow> int \<times> ipset_session" where
  "ipset_parse_ip env session opt str = parse_ip env session opt str IPADDR_ANY"

definition ipset_parse_single_ip ::
  "ipset_env \<Rightarrow> ipset_session \<Rightarrow> ipset_opt \<Rightarrow> string \<Rightarrow> int \<times> ipset_session" where
  "ipset_parse_single_ip env session opt str = parse_ip env session opt str IPADDR_PLAIN"

definition ipset_parse_net ::
  "ipset_env \<Rightarrow> ipset_session \<Rightarrow> ipset_opt \<Rightarrow> string \<Rightarrow> int \<times> ipset_session" where
  "ipset_parse_net env session opt str = parse_ip env session opt str IPADDR_NET"

definition ipset_parse_range ::
  "ipset_env \<Rightarrow> ipset_session \<Rightarrow> ipset_opt \<Rightarrow> string \<Rightarrow> int \<times> ipset_session" where
  "ipset_parse_range env session opt str = parse_ip env session IPSET_OPT_IP str IPADDR_RANGE"

definition ipset_parse_netrange ::
  "ipset_env \<Rightarrow> ipset_session \<Rightarrow> ipset_opt \<Rightarrow> string \<Rightarrow> int \<times> ipset_session" where
  "ipset_parse_netrange env session opt str =
     (if \<not> (range_separator str \<noteq> None \<or> cidr_separator str \<noteq> None)
      then syntax_err session (MSG_cidr_or_range str)
      else parse_ip env session opt str IPADDR_ANY)"

definition ipset_parse_iprange ::
  "ipset_env \<Rightarrow> ipset_session \<Rightarrow> ipset_opt \<Rightarrow> string \<Rightarrow> int \<times> ipset_session" where
  "ipset_parse_iprange env session opt str =
     (if cidr_separator str \<noteq> None then syntax_err session (MSG_ip_or_range str)
      else parse_ip env session opt str IPADDR_ANY)"

definition ipset_parse_ipnet ::
  "ipset_env \<Rightarrow> ipset_session \<Rightarrow> ipset_opt \<Rightarrow> string \<Rightarrow> int \<times> ipset_session" where
  "ipset_parse_ipnet env session opt str =
     (if range_separator str \<noteq> None then syntax_err session (MSG_ip_or_cidr str)
      else parse_ip env session opt str IPADDR_ANY)"

definition ipset_parse_ip4_single6 ::
  "ipset_env \<Rightarrow> ipset_session \<Rightarrow> ipset_opt \<Rightarrow> string \<Rightarrow> int \<times> ipset_session" where
  "ipset_parse_ip4_single6 env session opt str =
     (let family0 = ipset_data_family (data session);
          family = (if family0 = AF_UNSPEC then AF_INET else family0);
          s0 = (if family0 = AF_UNSPEC
                then session\<lparr>data := snd (ipset_data_set (data session) IPSET_OPT_FAMILY (V_family AF_INET))\<rparr>
                else session)
      in if family = AF_INET then ipset_parse_ip env s0 opt str
         else ipset_parse_single_ip env s0 opt str)"

section \<open>Unsigned integers, netmask, flags (parse.c, lines 1192-1309)\<close>

definition ipset_parse_uint32 :: "ipset_session \<Rightarrow> ipset_opt \<Rightarrow> string \<Rightarrow> int \<times> ipset_session" where
  "ipset_parse_uint32 session opt str =
     (case string_to_u32 session str of
        (err, v, s) \<Rightarrow> if err = 0 then ipset_session_data_set s opt (V_u32 v) else (err, s))"

definition ipset_parse_uint8 :: "ipset_session \<Rightarrow> ipset_opt \<Rightarrow> string \<Rightarrow> int \<times> ipset_session" where
  "ipset_parse_uint8 session opt str =
     (case string_to_u8 session str of
        (err, v, s) \<Rightarrow> if err = 0 then ipset_session_data_set s opt (V_u8 v) else (err, s))"

definition ipset_parse_netmask :: "ipset_session \<Rightarrow> ipset_opt \<Rightarrow> string \<Rightarrow> int \<times> ipset_session" where
  "ipset_parse_netmask session opt str =
     (let family0 = ipset_data_family (data session);
          family = (if family0 = AF_UNSPEC then AF_INET else family0);
          s0 = (if family0 = AF_UNSPEC
                then session\<lparr>data := snd (ipset_data_set (data session) IPSET_OPT_FAMILY (V_family AF_INET))\<rparr>
                else session)
      in case string_to_cidr s0 str (if family = AF_INET then 1 else 4)
                (if family = AF_INET then 31 else 124) of
           (err, cidr, s1) \<Rightarrow>
             if err \<noteq> 0 then
               syntax_err s1 (MSG_netmask_range (if family = AF_INET then 1 else 4)
                                (if family = AF_INET then 31 else 124))
             else (case ipset_data_set (data s1) opt (V_u8 cidr) of
                     (err', d) \<Rightarrow> (err', s1\<lparr>data := d\<rparr>)))"

definition ipset_parse_flag :: "ipset_session \<Rightarrow> ipset_opt \<Rightarrow> string \<Rightarrow> int \<times> ipset_session" where
  "ipset_parse_flag session opt str = ipset_session_data_set session opt V_flag"

definition ipset_parse_ignored :: "ipset_session \<Rightarrow> ipset_opt \<Rightarrow> string \<Rightarrow> int \<times> ipset_session" where
  "ipset_parse_ignored session opt str =
     (case ipset_data_ignored (data session) opt of
        (was_ignored, d) \<Rightarrow>
          (0, if \<not> was_ignored then snd (ipset_warn (session\<lparr>data := d\<rparr>) (MSG_ignored str))
              else session\<lparr>data := d\<rparr>))"

text \<open>The legacy form \<open>IP,timeout\<close> (lines 991-1025).\<close>

definition ipset_parse_iptimeout ::
  "ipset_env \<Rightarrow> ipset_session \<Rightarrow> ipset_opt \<Rightarrow> string \<Rightarrow> int \<times> ipset_session" where
  "ipset_parse_iptimeout env session opt str =
     (if ipset_data_flags_test (data session) IPSET_OPT_TIMEOUT
      then syntax_err session MSG_timeout_mixed
      else case elem_separator str of
             None \<Rightarrow> syntax_err session (MSG_missing_separator str)
           | Some i \<Rightarrow>
               (case parse_ip env session opt (take i str) IPADDR_ANY of
                  (err, s1) \<Rightarrow>
                    if err = 0 then ipset_parse_uint32 s1 IPSET_OPT_TIMEOUT (drop (Suc i) str)
                    else (err, s1)))"

section \<open>Set names (parse.c, lines 1027-1190)\<close>

text \<open>
  \<open>ipset_parse_name_compat\<close>. The first part splits at most twice and yields either the
  error of a wrong shape or \<open>tmp\<close>, \<open>b\<close> and \<open>before\<close>; the macro \<open>check_setname\<close> returns
  from the function when the name is longer than \<open>IPSET_MAXNAMELEN - 1\<close>.
\<close>

definition ipset_parse_name_compat ::
  "ipset_env \<Rightarrow> ipset_session \<Rightarrow> ipset_opt \<Rightarrow> string \<Rightarrow> int \<times> ipset_session" where
  "ipset_parse_name_compat env session opt str =
     (let s0 = (if ipset_data_flags_test (data session) IPSET_OPT_NAMEREF
                then snd (syntax_err session MSG_before_after_mixed) else session)
      in case (case elem_separator str of
                 Some i \<Rightarrow>
                   let a0 = drop (Suc i) str;
                       b = (case elem_separator a0 of
                              Some j \<Rightarrow> Some (drop (Suc j) a0) | None \<Rightarrow> None);
                       a = (case elem_separator a0 of Some j \<Rightarrow> take j a0 | None \<Rightarrow> a0)
                   in if b = None \<or> \<not> (a = ''before'' \<or> a = ''after'') then None
                      else Some (take i str, b, a = ''before'')
               | None \<Rightarrow> Some (str, None, False))
         of None \<Rightarrow> ipset_err s0 MSG_nameref_syntax
          | Some (tmp, b, before) \<Rightarrow>
              if length tmp > IPSET_MAXNAMELEN env - 1
              then syntax_err s0 (MSG_setname_too_long tmp (IPSET_MAXNAMELEN env - 1))
              else
                (case ipset_data_set (data s0) opt (V_str tmp) of
                   (err, d1) \<Rightarrow>
                     (case b of
                        None \<Rightarrow> (err, s0\<lparr>data := d1\<rparr>)
                      | Some b' \<Rightarrow>
                          if err \<noteq> 0 then (err, s0\<lparr>data := d1\<rparr>)
                          else if length b' > IPSET_MAXNAMELEN env - 1
                          then syntax_err (s0\<lparr>data := d1\<rparr>)
                                 (MSG_setname_too_long b' (IPSET_MAXNAMELEN env - 1))
                          else
                            (case ipset_data_set d1 IPSET_OPT_NAMEREF (V_str b') of
                               (err', d2) \<Rightarrow>
                                 if err' \<noteq> 0 then (err', s0\<lparr>data := d2\<rparr>)
                                 else if before then
                                   (case ipset_data_set d2 IPSET_OPT_BEFORE V_flag of
                                      (err'', d3) \<Rightarrow> (err'', s0\<lparr>data := d3\<rparr>))
                                 else (err', s0\<lparr>data := d2\<rparr>)))))"

definition ipset_parse_setname ::
  "ipset_env \<Rightarrow> ipset_session \<Rightarrow> ipset_opt \<Rightarrow> string \<Rightarrow> int \<times> ipset_session" where
  "ipset_parse_setname env session opt str =
     (if length str > IPSET_MAXNAMELEN env - 1
      then syntax_err session (MSG_setname_too_long str (IPSET_MAXNAMELEN env - 1))
      else ipset_session_data_set session opt (V_str str))"

definition ipset_parse_before ::
  "ipset_env \<Rightarrow> ipset_session \<Rightarrow> ipset_opt \<Rightarrow> string \<Rightarrow> int \<times> ipset_session" where
  "ipset_parse_before env session opt str =
     (let s0 = (if ipset_data_flags_test (data session) IPSET_OPT_NAMEREF
                then snd (syntax_err session MSG_before_after_mixed) else session)
      in if length str > IPSET_MAXNAMELEN env - 1
         then syntax_err s0 (MSG_setname_too_long str (IPSET_MAXNAMELEN env - 1))
         else
           (case ipset_data_set (snd (ipset_data_set (data s0) IPSET_OPT_BEFORE V_flag)) opt
                   (V_str str) of
              (err, d) \<Rightarrow> (err, s0\<lparr>data := d\<rparr>)))"

definition ipset_parse_after ::
  "ipset_env \<Rightarrow> ipset_session \<Rightarrow> ipset_opt \<Rightarrow> string \<Rightarrow> int \<times> ipset_session" where
  "ipset_parse_after env session opt str =
     (let s0 = (if ipset_data_flags_test (data session) IPSET_OPT_NAMEREF
                then snd (syntax_err session MSG_before_after_mixed) else session)
      in if length str > IPSET_MAXNAMELEN env - 1
         then syntax_err s0 (MSG_setname_too_long str (IPSET_MAXNAMELEN env - 1))
         else (case ipset_data_set (data s0) opt (V_str str) of
                 (err, d) \<Rightarrow> (err, s0\<lparr>data := d\<rparr>)))"

section \<open>Calling a parser and dispatching an element (parse.c, lines 1404-1535)\<close>

text \<open>
  A call through a parser function pointer. \<open>ipset_parse_typename\<close> and
  \<open>ipset_parse_output\<close>, which need the type registry and the output mode of the
  session, are not modelled.
\<close>

fun call_parsefn ::
  "ipset_env \<Rightarrow> ipset_parsefn \<Rightarrow> ipset_session \<Rightarrow> ipset_opt \<Rightarrow> string \<Rightarrow> int \<times> ipset_session" where
  "call_parsefn env PARSE_ether s opt str = ipset_parse_ether s opt str"
| "call_parsefn env PARSE_tcp_port s opt str = ipset_parse_tcp_port env s opt str"
| "call_parsefn env PARSE_single_tcp_port s opt str = ipset_parse_single_tcp_port env s opt str"
| "call_parsefn env PARSE_proto s opt str = ipset_parse_proto env s opt str"
| "call_parsefn env PARSE_icmp s opt str = ipset_parse_icmp env s opt str"
| "call_parsefn env PARSE_icmpv6 s opt str = ipset_parse_icmpv6 env s opt str"
| "call_parsefn env PARSE_proto_port s opt str = ipset_parse_proto_port env s opt str"
| "call_parsefn env PARSE_family s opt str = ipset_parse_family s opt str"
| "call_parsefn env PARSE_ip s opt str = ipset_parse_ip env s opt str"
| "call_parsefn env PARSE_single_ip s opt str = ipset_parse_single_ip env s opt str"
| "call_parsefn env PARSE_net s opt str = ipset_parse_net env s opt str"
| "call_parsefn env PARSE_range s opt str = ipset_parse_range env s opt str"
| "call_parsefn env PARSE_netrange s opt str = ipset_parse_netrange env s opt str"
| "call_parsefn env PARSE_iprange s opt str = ipset_parse_iprange env s opt str"
| "call_parsefn env PARSE_ipnet s opt str = ipset_parse_ipnet env s opt str"
| "call_parsefn env PARSE_ip4_single6 s opt str = ipset_parse_ip4_single6 env s opt str"
| "call_parsefn env PARSE_iptimeout s opt str = ipset_parse_iptimeout env s opt str"
| "call_parsefn env PARSE_name_compat s opt str = ipset_parse_name_compat env s opt str"
| "call_parsefn env PARSE_setname s opt str = ipset_parse_setname env s opt str"
| "call_parsefn env PARSE_before s opt str = ipset_parse_before env s opt str"
| "call_parsefn env PARSE_after s opt str = ipset_parse_after env s opt str"
| "call_parsefn env PARSE_uint32 s opt str = ipset_parse_uint32 s opt str"
| "call_parsefn env PARSE_uint8 s opt str = ipset_parse_uint8 s opt str"
| "call_parsefn env PARSE_netmask s opt str = ipset_parse_netmask s opt str"
| "call_parsefn env PARSE_flag s opt str = ipset_parse_flag s opt str"
| "call_parsefn env PARSE_ignored s opt str = ipset_parse_ignored s opt str"

text \<open>
  \<open>ipset_call_parser\<close>: the result of \<open>syntax_err\<close> is not returned; the message is
  logged and the parser is called all the same.
\<close>

definition ipset_call_parser ::
  "ipset_env \<Rightarrow> ipset_session \<Rightarrow> ipset_parsefn \<Rightarrow> string \<Rightarrow> ipset_opt \<Rightarrow> string
     \<Rightarrow> int \<times> ipset_session" where
  "ipset_call_parser env session parsefn optstr opt str =
     (let s0 = (if ipset_data_flags_test (data session) opt
                then snd (syntax_err session (MSG_already_specified optstr)) else session)
      in call_parsefn env parsefn s0 opt (if parsefn = PARSE_ignored then optstr else str))"

text \<open>
  The macro \<open>parse_elem\<close>: \<open>goto internal\<close> without a parser, otherwise the parser's
  result, which ends the function when it is not 0.
\<close>

definition parse_elem ::
  "ipset_env \<Rightarrow> ipset_session \<Rightarrow> ipset_type \<Rightarrow> ipset_dim \<Rightarrow> string \<Rightarrow> int \<times> ipset_session" where
  "parse_elem env s t d str =
     (case elem_parse (type_elem t d) of
        None \<Rightarrow> ipset_err s (MSG_missing_parser (type_name t))
      | Some fn \<Rightarrow> call_parsefn env fn s (elem_opt (type_elem t d)) str)"

text \<open>
  \<open>ipset_parse_elem\<close>, in the order of the source. \<open>ipset_parse_elem_fields\<close> is the part
  from line 1511 on, with the parts \<open>tmp\<close>, \<open>a\<close>, \<open>b\<close> already cut; \<open>ipset_parse_elem_third\<close>
  is the part from line 1498 on, which looks for the second separator in \<open>a\<close>;
  \<open>ipset_parse_elem\<close> itself fetches the type and looks for the first separator.
  \<open>optional\<close> is an option kind read as a truth value.
\<close>

definition ipset_parse_elem_fields ::
  "ipset_env \<Rightarrow> ipset_session \<Rightarrow> ipset_type \<Rightarrow> string \<Rightarrow> string \<Rightarrow> string option \<Rightarrow> string option
     \<Rightarrow> int \<times> ipset_session" where
  "ipset_parse_elem_fields env session t str tmp a b =
     (if (case b of Some b' \<Rightarrow> elem_separator b' \<noteq> None | None \<Rightarrow> False)
      then syntax_err session (MSG_three_separators str (type_name t))
      else
        (case parse_elem env session t IPSET_DIM_ONE tmp of
           (ret1, s1) \<Rightarrow>
             if ret1 \<noteq> 0 then (ret1, s1)
             else
               (case (case a of
                        Some a' \<Rightarrow>
                          if dim_index (type_dimension t) > dim_index IPSET_DIM_ONE
                          then parse_elem env s1 t IPSET_DIM_TWO a' else (ret1, s1)
                      | None \<Rightarrow> (ret1, s1))
                of (ret2, s2) \<Rightarrow>
                     if ret2 \<noteq> 0 then (ret2, s2)
                     else
                       (case b of
                          Some b' \<Rightarrow>
                            if dim_index (type_dimension t) > dim_index IPSET_DIM_TWO
                            then parse_elem env s2 t IPSET_DIM_THREE b' else (ret2, s2)
                        | None \<Rightarrow> (ret2, s2)))))"

definition ipset_parse_elem_third ::
  "ipset_env \<Rightarrow> ipset_session \<Rightarrow> ipset_type \<Rightarrow> ipset_opt \<Rightarrow> string \<Rightarrow> string \<Rightarrow> string option
     \<Rightarrow> int \<times> ipset_session" where
  "ipset_parse_elem_third env session t optional str tmp a =
     (let b = (case a of Some a' \<Rightarrow> elem_separator a' | None \<Rightarrow> None) in
      if dim_index (type_dimension t) > dim_index IPSET_DIM_TWO then
        (case (a, b) of
           (Some a', Some j) \<Rightarrow>
             ipset_parse_elem_fields env session t str tmp (Some (take j a')) (Some (drop (Suc j) a'))
         | _ \<Rightarrow>
             if optional = IPSET_OPT_NONE then syntax_err session (MSG_third_missing str)
             else ipset_parse_elem_fields env session t str tmp a None)
      else if b \<noteq> None then syntax_err session (MSG_two_separators str (type_name t))
      else ipset_parse_elem_fields env session t str tmp a None)"

definition ipset_parse_elem ::
  "ipset_env \<Rightarrow> ipset_session \<Rightarrow> ipset_opt \<Rightarrow> string \<Rightarrow> int \<times> ipset_session" where
  "ipset_parse_elem env session optional str =
     (case ipset_session_data_get session IPSET_OPT_TYPE of
        Some (V_type t) \<Rightarrow>
          (case elem_separator str of
             Some i \<Rightarrow>
               if dim_index (type_dimension t) > dim_index IPSET_DIM_ONE then
                 ipset_parse_elem_third env session t optional str (take i str)
                   (Some (drop (Suc i) str))
               else
                 (case type_compat_parse_elem t of
                    Some fn \<Rightarrow>
                      call_parsefn env fn session (elem_opt (type_elem t IPSET_DIM_ONE)) str
                  | None \<Rightarrow> syntax_err session (MSG_elem_separator_none str (type_name t)))
           | None \<Rightarrow>
               if dim_index (type_dimension t) > dim_index IPSET_DIM_ONE
                  \<and> optional = IPSET_OPT_NONE
               then syntax_err session (MSG_second_missing str)
               else ipset_parse_elem_third env session t optional str str None)
      | _ \<Rightarrow> ipset_err session MSG_type_unknown)"

section \<open>Numerals, as the specification words them\<close>

text \<open>
  The three forms of numeral the specification names (4.2): decimal, hexadecimal with
  the prefix \<open>0x\<close>, octal with a leading zero, and the number each denotes. These follow
  the specification's words and are compared with the conversion of the code. The
  digits are listed with their values: \<open>0\<close> to \<open>9\<close>, and \<open>a\<close> to \<open>f\<close> in either case for ten to
  fifteen; a digit of a base is one whose value is below the base.
\<close>

definition digit_table :: "(char \<times> nat) list" where
  "digit_table = zip ''0123456789abcdef'' [0..<16] @ zip ''ABCDEF'' [10..<16]"

definition digit_of :: "char \<Rightarrow> nat option" where
  "digit_of c = map_of digit_table c"

definition is_digit :: "nat \<Rightarrow> char \<Rightarrow> bool" where
  "is_digit base c = (case digit_of c of Some d \<Rightarrow> d < base | None \<Rightarrow> False)"

fun digits_value :: "nat \<Rightarrow> string \<Rightarrow> nat" where
  "digits_value base [] = 0"
| "digits_value base (c # cs) =
     (case digit_of c of Some d \<Rightarrow> d | None \<Rightarrow> 0) * base ^ length cs + digits_value base cs"

datatype numeral_form = Decimal | Hexadecimal | Octal

fun numeral_base :: "numeral_form \<Rightarrow> nat" where
  "numeral_base Decimal = 10"
| "numeral_base Hexadecimal = 16"
| "numeral_base Octal = 8"

fun numeral_digits :: "numeral_form \<Rightarrow> string \<Rightarrow> string" where
  "numeral_digits Hexadecimal s = drop 2 s"
| "numeral_digits f s = s"

fun is_numeral :: "numeral_form \<Rightarrow> string \<Rightarrow> bool" where
  "is_numeral Decimal s \<longleftrightarrow>
     (case s of [] \<Rightarrow> False | c # _ \<Rightarrow> c \<noteq> CHR ''0'') \<and> list_all (is_digit 10) s"
| "is_numeral Hexadecimal s \<longleftrightarrow>
     (take 2 s = ''0x'' \<or> take 2 s = ''0X'') \<and> drop 2 s \<noteq> [] \<and> list_all (is_digit 16) (drop 2 s)"
| "is_numeral Octal s \<longleftrightarrow>
     (case s of [] \<Rightarrow> False | c # _ \<Rightarrow> c = CHR ''0'') \<and> list_all (is_digit 8) s"

definition numeral_value :: "numeral_form \<Rightarrow> string \<Rightarrow> nat" where
  "numeral_value f s = digits_value (numeral_base f) (numeral_digits f s)"

text \<open>
  Trailing text \<open>t\<close> after a numeral \<open>n\<close>: \<open>t\<close> is not empty, and \<open>n\<close> followed by the first
  \<open>k\<close> characters of \<open>t\<close> is a numeral of no form, for every \<open>k\<close> from 1 to the length of
  \<open>t\<close>. So \<open>n\<close> is the longest numeral that the string \<open>n @ t\<close> begins with, and the
  string is the numeral and something else: \<open>abc\<close> is trailing text after \<open>12\<close>, and \<open>xg\<close>
  after \<open>0\<close>, but \<open>x1\<close> is not trailing text after \<open>0\<close>, since \<open>0x1\<close> is a numeral.

  \<open>upper_bound\<close> is the bound that \<open>max\<close> stands for: 0 means the largest
  \<open>unsigned long long\<close>.
\<close>

definition trailing_text :: "string \<Rightarrow> string \<Rightarrow> bool" where
  "trailing_text n t \<longleftrightarrow>
     t \<noteq> []
     \<and> list_all (\<lambda>k. \<not> is_numeral Decimal (n @ take k t)
                     \<and> \<not> is_numeral Hexadecimal (n @ take k t)
                     \<and> \<not> is_numeral Octal (n @ take k t))
         [1..<Suc (length t)]"

definition upper_bound :: "u64 \<Rightarrow> nat" where
  "upper_bound maxv = (if maxv = 0 then ULLONG_MAX else unat maxv)"

text \<open>The byte that two hexadecimal digits denote.\<close>

definition octet :: "char \<Rightarrow> char \<Rightarrow> u8" where
  "octet h1 h2 = of_nat (digits_value 16 [h1, h2])"

section \<open>Element texts, as the specification words them\<close>

text \<open>
  The specification speaks of the separator-delimited parts of an element text (3, 4.5).
  \<open>join_elems\<close> puts the element separator between the parts; \<open>wf_parts\<close> says that there
  is at least one part and that every part is non-empty and holds no separator.
\<close>

fun join_elems :: "string list \<Rightarrow> string" where
  "join_elems [] = []"
| "join_elems [p] = p"
| "join_elems (p # q # ps) = p @ CHR '','' # join_elems (q # ps)"

definition wf_part :: "string \<Rightarrow> bool" where
  "wf_part p \<longleftrightarrow> p \<noteq> [] \<and> CHR '','' \<notin> set p"

definition wf_parts :: "string list \<Rightarrow> bool" where
  "wf_parts ps \<longleftrightarrow> ps \<noteq> [] \<and> list_all wf_part ps"

section \<open>Example environment and stores\<close>

text \<open>
  A small system for the concrete cases: two services, listed for every protocol name,
  four protocols, two literal addresses, no ICMP names, and the \<open>IPSET_MAXNAMELEN\<close> of
  the kernel header, 32.
\<close>

definition example_env :: ipset_env where
  "example_env =
     \<lparr> getservbyname = (\<lambda>n p. if n = ''http'' then Some 80 else if n = ''ssh'' then Some 22 else None),
       getprotobyname = (\<lambda>n. if n = ''icmp'' then Some 1 else if n = ''tcp'' then Some 6
                              else if n = ''udp'' then Some 17
                              else if n = ''ipv6-icmp'' then Some 58 else None),
       getaddrinfo = (\<lambda>n f.
          if n = ''192.0.2.10'' \<and> f = AF_INET
          then Some [\<lparr>ai_family = AF_INET, ai_addrlen = 16, ai_addr = In4 0xC000020A\<rparr>]
          else if n = ''2001:db8::1'' \<and> f = AF_INET6
          then Some [\<lparr>ai_family = AF_INET6, ai_addrlen = 28,
                      ai_addr = In6 0x20010DB8000000000000000000000001\<rparr>]
          else None),
       name_to_icmp = (\<lambda>n. None),
       name_to_icmpv6 = (\<lambda>n. None),
       IPSET_MAXNAMELEN = 32 \<rparr>"

definition empty_data :: ipset_data where
  "empty_data = \<lparr> opt_values = (\<lambda>opt. None), bits = {}, ignored = {} \<rparr>"

definition empty_session :: ipset_session where
  "empty_session = \<lparr> data = empty_data, report = [] \<rparr>"

text \<open>
  Two type descriptors in the shape of libipset's: a two-dimensional one of an address
  and a port, and the one-dimensional list of set names with its compatibility parser.
\<close>

definition type_ip_port :: ipset_type where
  "type_ip_port =
     \<lparr> type_name = ''hash:ip,port'', type_dimension = IPSET_DIM_TWO,
       type_elem = (\<lambda>d. case d of
          IPSET_DIM_ONE \<Rightarrow> \<lparr>elem_parse = Some PARSE_ip4_single6, elem_opt = IPSET_OPT_IP\<rparr>
        | IPSET_DIM_TWO \<Rightarrow> \<lparr>elem_parse = Some PARSE_proto_port, elem_opt = IPSET_OPT_PORT\<rparr>
        | IPSET_DIM_THREE \<Rightarrow> \<lparr>elem_parse = None, elem_opt = IPSET_OPT_NONE\<rparr>),
       type_compat_parse_elem = None \<rparr>"

definition type_list_set :: ipset_type where
  "type_list_set =
     \<lparr> type_name = ''list:set'', type_dimension = IPSET_DIM_ONE,
       type_elem = (\<lambda>d. case d of
          IPSET_DIM_ONE \<Rightarrow> \<lparr>elem_parse = Some PARSE_setname, elem_opt = IPSET_OPT_NAME\<rparr>
        | _ \<Rightarrow> \<lparr>elem_parse = None, elem_opt = IPSET_OPT_NONE\<rparr>),
       type_compat_parse_elem = Some PARSE_name_compat \<rparr>"

text \<open>
  A two-dimensional descriptor whose two fields are set names, to show what the
  dispatcher passes on.
\<close>

definition type_name_pair :: ipset_type where
  "type_name_pair =
     \<lparr> type_name = ''name,name'', type_dimension = IPSET_DIM_TWO,
       type_elem = (\<lambda>d. case d of
          IPSET_DIM_ONE \<Rightarrow> \<lparr>elem_parse = Some PARSE_setname, elem_opt = IPSET_OPT_NAME\<rparr>
        | IPSET_DIM_TWO \<Rightarrow> \<lparr>elem_parse = Some PARSE_setname, elem_opt = IPSET_OPT_SETNAME2\<rparr>
        | IPSET_DIM_THREE \<Rightarrow> \<lparr>elem_parse = None, elem_opt = IPSET_OPT_NONE\<rparr>),
       type_compat_parse_elem = None \<rparr>"

definition session_of_type :: "ipset_type \<Rightarrow> ipset_session" where
  "session_of_type t =
     snd (ipset_session_data_set empty_session IPSET_OPT_TYPE (V_type t))"

text \<open>
  A session whose family has been set to IPv6, and one in which the timeout has been
  given once through \<open>ipset_call_parser\<close>.
\<close>

definition inet6_session :: ipset_session where
  "inet6_session = snd (ipset_parse_family empty_session IPSET_OPT_FAMILY ''inet6'')"

definition timeout_10_session :: ipset_session where
  "timeout_10_session =
     snd (ipset_call_parser example_env empty_session PARSE_uint32 ''timeout''
            IPSET_OPT_TIMEOUT ''10'')"

text \<open>The session after \<open>v\<close> has been stored under \<open>opt\<close>.\<close>

definition put_opt :: "ipset_opt \<Rightarrow> ipset_value \<Rightarrow> ipset_session \<Rightarrow> ipset_session" where
  "put_opt opt v s = snd (ipset_session_data_set s opt v)"

section \<open>Evaluation\<close>

lemmas libc_defs = strtoull_def strtol_def strto_scan_def isspace_c_def digit_val_def
  strcasecmp_eq_def tolower_c_def

lemmas separator_defs = cidr_separator_def range_separator_def elem_separator_def
  proto_separator_def IPSET_CIDR_SEPARATOR_def IPSET_RANGE_SEPARATOR_def
  IPSET_ELEM_SEPARATOR_def IPSET_PROTO_SEPARATOR_def

lemmas store_defs = ipset_data_set_def ipset_data_get_def ipset_data_flags_test_def
  ipset_data_flags_set_def ipset_data_family_def ipset_data_ignored_def
  ipset_session_data_set_def ipset_session_data_get_def ipset_err_def syntax_err_def
  ipset_warn_def ipset_session_report_reset_def empty_data_def empty_session_def

lemmas number_defs = string_to_number_ll_def string_to_u8_def string_to_u16_def
  string_to_u32_def string_to_cidr_def ULLONG_MAX_def

lemmas proto_defs = IPPROTO_ICMP_def IPPROTO_TCP_def IPPROTO_UDP_def IPPROTO_ICMPV6_def

lemmas addr_defs = parse_ip_def parse_ipaddr_def parse_ipaddr_out_def EINVAL_def
  cidr_hostaddr_def get_addrinfo_def call_getaddrinfo_def

section \<open>The tokenizer\<close>

lemma strchr_None_iff: "strchr s c = None \<longleftrightarrow> c \<notin> set s"
  by (induction s) auto

lemma strchr_SomeD:
  "strchr s c = Some i \<Longrightarrow> i < length s \<and> s ! i = c \<and> (\<forall>j<i. s ! j \<noteq> c)"
proof (induction s arbitrary: i)
  case Nil
  then show ?case by simp
next
  case (Cons x xs)
  show ?case
  proof (cases "x = c")
    case True
    with Cons.prems show ?thesis by simp
  next
    case False
    with Cons.prems obtain k where k: "strchr xs c = Some k" "i = Suc k"
      by auto
    from Cons.IH [OF k(1)] have "k < length xs" "xs ! k = c" "\<forall>j<k. xs ! j \<noteq> c"
      by auto
    with k(2) False show ?thesis
      by (auto simp: nth_Cons split: nat.splits)
  qed
qed

lemma strchr_SomeI: "c \<in> set s \<Longrightarrow> \<exists>i. strchr s c = Some i"
  using strchr_None_iff [of s c] by (cases "strchr s c") auto

lemma strchr_append_first: "c \<notin> set f \<Longrightarrow> strchr (f @ c # rest) c = Some (length f)"
  by (induction f) auto

lemma ipset_strchr_single:
  "ipset_strchr s [c] =
     (case strchr s c of
        Some m \<Rightarrow> if s ! 0 \<noteq> c \<and> s ! (length s - 1) \<noteq> c then Some m else None
      | None \<Rightarrow> None)"
  by (simp split: option.splits)

lemma ipset_strchr_found:
  assumes "c \<notin> set f" "f \<noteq> []" "rest \<noteq> []" "last rest \<noteq> c"
  shows "ipset_strchr (f @ c # rest) [c] = Some (length f)"
proof -
  from assms(1,2) have "(f @ c # rest) ! 0 \<noteq> c"
    by (cases f) auto
  moreover have "(f @ c # rest) ! (length (f @ c # rest) - 1) = last (f @ c # rest)"
    by (simp add: last_conv_nth)
  with assms(3,4) have "(f @ c # rest) ! (length (f @ c # rest) - 1) \<noteq> c"
    by simp
  ultimately show ?thesis
    using strchr_append_first [OF assms(1), of rest] by (simp add: ipset_strchr_single)
qed

lemma ipset_strchr_absent: "c \<notin> set s \<Longrightarrow> ipset_strchr s [c] = None"
  using strchr_None_iff [of s c] by (simp add: ipset_strchr_single)


lemma elem_separator_found:
  "CHR '','' \<notin> set f \<Longrightarrow> f \<noteq> [] \<Longrightarrow> rest \<noteq> [] \<Longrightarrow> last rest \<noteq> CHR '',''
   \<Longrightarrow> elem_separator (f @ CHR '','' # rest) = Some (length f)"
  unfolding elem_separator_def IPSET_ELEM_SEPARATOR_def by (rule ipset_strchr_found)

lemma elem_separator_absent: "CHR '','' \<notin> set s \<Longrightarrow> elem_separator s = None"
  unfolding elem_separator_def IPSET_ELEM_SEPARATOR_def by (rule ipset_strchr_absent)


lemma cidr_separator_suffix:
  assumes "h \<noteq> []" "CHR ''/'' \<notin> set h" "sfx \<noteq> []" "last sfx \<noteq> CHR ''/''"
  shows "cidr_separator (h @ CHR ''/'' # sfx) = Some (length h)"
  unfolding cidr_separator_def IPSET_CIDR_SEPARATOR_def
  using assms by (intro ipset_strchr_found)

lemma cidr_separator_absent: "CHR ''/'' \<notin> set s \<Longrightarrow> cidr_separator s = None"
  unfolding cidr_separator_def IPSET_CIDR_SEPARATOR_def by (rule ipset_strchr_absent)

lemma range_separator_absent: "CHR ''-'' \<notin> set s \<Longrightarrow> range_separator s = None"
  unfolding range_separator_def IPSET_RANGE_SEPARATOR_def by (rule ipset_strchr_absent)

text \<open>
  Claim C1, as the code has it. For a single separator character \<open>c\<close>:
  \<^item> if \<open>c\<close> occurs in \<open>s\<close> only as the first or the last character (or not at all),
    \<open>ipset_strchr\<close> returns \<open>NULL\<close>;
  \<^item> if \<open>s\<close> starts or ends with \<open>c\<close>, it returns \<open>NULL\<close> as well, whether or not \<open>c\<close>
    also occurs in the interior;
  \<^item> if \<open>c\<close> occurs in \<open>s\<close> and \<open>s\<close> neither starts nor ends with \<open>c\<close>, it returns the
    position of the first occurrence, which is an interior position.
\<close>

theorem ipset_strchr_boundary_rule:
  "((\<forall>i<length s. s ! i = c \<longrightarrow> i = 0 \<or> Suc i = length s) \<longrightarrow> ipset_strchr s [c] = None)
   \<and> (c \<in> set s \<and> (hd s = c \<or> last s = c) \<longrightarrow> ipset_strchr s [c] = None)
   \<and> (c \<in> set s \<and> hd s \<noteq> c \<and> last s \<noteq> c \<longrightarrow>
        (\<exists>i. ipset_strchr s [c] = Some i \<and> 0 < i \<and> Suc i < length s \<and> s ! i = c
             \<and> (\<forall>j<i. s ! j \<noteq> c)))"
proof (intro conjI impI)
  assume only: "\<forall>i<length s. s ! i = c \<longrightarrow> i = 0 \<or> Suc i = length s"
  show "ipset_strchr s [c] = None"
  proof (cases "strchr s c")
    case None
    then show ?thesis by (simp add: ipset_strchr_single)
  next
    case (Some m)
    from strchr_SomeD [OF Some] have m: "m < length s" "s ! m = c" by auto
    with only have "m = 0 \<or> Suc m = length s" by blast
    then have "s ! 0 = c \<or> s ! (length s - 1) = c"
    proof
      assume "m = 0" with m show ?thesis by simp
    next
      assume "Suc m = length s"
      then have "length s - 1 = m" by simp
      with m show ?thesis by simp
    qed
    with Some show ?thesis by (auto simp: ipset_strchr_single)
  qed
next
  assume a: "c \<in> set s \<and> (hd s = c \<or> last s = c)"
  then have ne: "s \<noteq> []" by auto
  with a have "s ! 0 = c \<or> s ! (length s - 1) = c"
    by (simp add: hd_conv_nth last_conv_nth)
  then show "ipset_strchr s [c] = None"
    by (auto simp: ipset_strchr_single split: option.splits)
next
  assume a: "c \<in> set s \<and> hd s \<noteq> c \<and> last s \<noteq> c"
  then have ne: "s \<noteq> []" by auto
  from a obtain m where m: "strchr s c = Some m" using strchr_SomeI by blast
  from strchr_SomeD [OF m] have p: "m < length s" "s ! m = c" "\<forall>j<m. s ! j \<noteq> c" by auto
  from a ne have b: "s ! 0 \<noteq> c" "s ! (length s - 1) \<noteq> c"
    by (simp_all add: hd_conv_nth last_conv_nth)
  from p b have "0 < m" by (cases m) auto
  moreover from p b have "Suc m < length s"
    by (metis Suc_lessI diff_Suc_1)
  moreover from m b have "ipset_strchr s [c] = Some m" by (simp add: ipset_strchr_single)
  ultimately show "\<exists>i. ipset_strchr s [c] = Some i \<and> 0 < i \<and> Suc i < length s \<and> s ! i = c
             \<and> (\<forall>j<i. s ! j \<noteq> c)" using p by blast
qed

theorem ipset_strchr_boundary_rule_witness:
  "CHR '','' \<in> set ''a,b'' \<and> hd ''a,b'' \<noteq> CHR '','' \<and> last ''a,b'' \<noteq> CHR '',''
   \<and> ipset_strchr ''a,b'' '','' = Some 1
   \<and> CHR '','' \<in> set ''a,'' \<and> last ''a,'' = CHR '','' \<and> ipset_strchr ''a,'' '','' = None"
  using ipset_strchr_boundary_rule [of "''a,b''" "CHR '',''"]
        ipset_strchr_boundary_rule [of "''a,''" "CHR '',''"]
  by simp

text \<open>
  The separator occurs at the interior position 2 of \<open>,a,b\<close>, and the string starts with
  it: no separator is found.
\<close>

theorem ipset_strchr_interior_counterexample:
  "'',a,b'' ! 2 = CHR '','' \<and> (0::nat) < 2 \<and> Suc 2 < length '',a,b''
   \<and> ipset_strchr '',a,b'' '','' \<noteq> Some 2 \<and> ipset_strchr '',a,b'' '','' = None"
  by simp

section \<open>Bounded numbers\<close>

text \<open>
  The digits of the specification and the digits of the C library: up to base 16 they
  are the same characters with the same values.
\<close>

lemma digit_table_eval:
  "digit_table =
     [(CHR ''0'', 0), (CHR ''1'', 1), (CHR ''2'', 2), (CHR ''3'', 3), (CHR ''4'', 4),
      (CHR ''5'', 5), (CHR ''6'', 6), (CHR ''7'', 7), (CHR ''8'', 8), (CHR ''9'', 9),
      (CHR ''a'', 10), (CHR ''b'', 11), (CHR ''c'', 12), (CHR ''d'', 13), (CHR ''e'', 14),
      (CHR ''f'', 15), (CHR ''A'', 10), (CHR ''B'', 11), (CHR ''C'', 12), (CHR ''D'', 13),
      (CHR ''E'', 14), (CHR ''F'', 15)]"
  by (simp add: digit_table_def upt_rec_numeral eval_nat_numeral)

lemma digit_of_code:
  "digit_of c =
     (let n = (of_char c :: nat) in
      if 48 \<le> n \<and> n \<le> 57 then Some (n - 48)
      else if 97 \<le> n \<and> n \<le> 102 then Some (n - 87)
      else if 65 \<le> n \<and> n \<le> 70 then Some (n - 55)
      else None)"
proof -
  define n where "n = (of_char c :: nat)"
  have e: "\<And>d. (c = d) = (n = of_char d)"
    unfolding n_def by simp
  show ?thesis
    unfolding digit_of_def digit_table_eval Let_def n_def [symmetric]
    by (simp add: e) arith
qed

lemma digit_of_digit_val:
  "digit_of c = (case digit_val c of Some d \<Rightarrow> if d < 16 then Some d else None | None \<Rightarrow> None)"
  unfolding digit_of_code digit_val_def Let_def by auto

lemma is_digitD:
  assumes "is_digit b c"
  obtains d where "digit_of c = Some d" "digit_val c = Some d" "d < b"
  using assms unfolding is_digit_def digit_of_digit_val
  by (auto split: option.splits if_splits)

lemma not_is_digitD:
  assumes "\<not> is_digit b c" "b \<le> 16"
  shows "case digit_val c of Some d \<Rightarrow> \<not> d < b | None \<Rightarrow> True"
  using assms unfolding is_digit_def digit_of_digit_val
  by (auto split: option.splits if_splits)

lemma numeral_base_le: "numeral_base f \<le> 16"
  by (cases f) simp_all

lemma strto_digits_run:
  "list_all (is_digit b) ds \<Longrightarrow>
   strto_digits b (ds @ t) acc n
     = strto_digits b t (acc * b ^ length ds + digits_value b ds) (n + length ds)"
proof (induction ds arbitrary: acc n)
  case Nil
  then show ?case by simp
next
  case (Cons c cs)
  from Cons.prems have c: "is_digit b c" and cs: "list_all (is_digit b) cs"
    by simp_all
  from c obtain d where d: "digit_val c = Some d" "d < b" and d': "digit_of c = Some d"
    by (rule is_digitD)
  have "strto_digits b ((c # cs) @ t) acc n = strto_digits b (cs @ t) (acc * b + d) (Suc n)"
    using d by simp
  also have "\<dots> = strto_digits b t ((acc * b + d) * b ^ length cs + digits_value b cs)
                      (Suc n + length cs)"
    by (rule Cons.IH [OF cs])
  also have "(acc * b + d) * b ^ length cs + digits_value b cs
               = acc * b ^ length (c # cs) + digits_value b (c # cs)"
    using d' by (simp add: algebra_simps)
  finally show ?case by simp
qed

lemma strto_digits_stop:
  assumes "case t of [] \<Rightarrow> True | c # _ \<Rightarrow> \<not> is_digit b c" and "b \<le> 16"
  shows "strto_digits b t acc n = (acc, n)"
proof (cases t)
  case Nil
  then show ?thesis by simp
next
  case (Cons c cs)
  with assms(1) have "\<not> is_digit b c" by simp
  from not_is_digitD [OF this assms(2)] Cons show ?thesis
    by (auto split: option.splits)
qed

lemma strto_digits_numeral:
  assumes "list_all (is_digit b) ds" and "case t of [] \<Rightarrow> True | c # _ \<Rightarrow> \<not> is_digit b c"
    and "b \<le> 16"
  shows "strto_digits b (ds @ t) 0 0 = (digits_value b ds, length ds)"
  using strto_digits_run [OF assms(1), of t 0 0] strto_digits_stop [OF assms(2,3)]
  by simp

lemma is_digit_not_space:
  assumes "is_digit b c"
  shows "\<not> isspace_c c" "c \<noteq> CHR ''-''" "c \<noteq> CHR ''+''"
  using assms
  by (auto simp: is_digit_def digit_of_code Let_def isspace_c_def split: if_splits)

lemma is_digit_not_x:
  assumes "is_digit b c" "b \<le> 10"
  shows "c \<noteq> CHR ''x''" "c \<noteq> CHR ''X''"
  using assms by (auto simp: is_digit_def digit_of_code Let_def split: if_splits)

lemma strto_scan_plain:
  assumes "\<not> isspace_c c" "c \<noteq> CHR ''-''" "c \<noteq> CHR ''+''"
  shows "strto_scan 0 (c # rest)
     = (let pfx = (c = CHR ''0''
                   \<and> (case rest of [] \<Rightarrow> False | d # _ \<Rightarrow> d = CHR ''x'' \<or> d = CHR ''X''));
            base = (if pfx then 16 else if c = CHR ''0'' then 8 else 10);
            s3 = (if pfx then tl rest else c # rest)
        in case strto_digits base s3 0 0 of
             (v, n) \<Rightarrow>
               if n = 0 then (if pfx then (False, 0, 1) else (False, 0, 0))
               else (False, v, (if pfx then 2 else 0) + n))"
  using assms
  by (cases rest)
     (simp_all add: strto_scan_def Let_def del: strto_digits.simps split: prod.splits)

lemma strto_scan_decimal:
  assumes n: "is_numeral Decimal n"
    and t: "case t of [] \<Rightarrow> True | c # _ \<Rightarrow> \<not> is_digit 10 c"
  shows "strto_scan 0 (n @ t) = (False, numeral_value Decimal n, length n)"
proof -
  from n obtain c cs where ncs: "n = c # cs" and c0: "c \<noteq> CHR ''0''"
    and dig: "list_all (is_digit 10) (c # cs)"
    by (cases n) auto
  from dig have c: "is_digit 10 c" by simp
  have run: "strto_digits 10 (c # cs @ t) 0 0 = (digits_value 10 n, length n)"
    using strto_digits_numeral [OF dig t] by (simp add: ncs)
  have "strto_scan 0 (c # cs @ t) = (False, digits_value 10 n, length n)"
    unfolding strto_scan_plain [OF is_digit_not_space [OF c]] Let_def
    using c0 run by (simp add: ncs del: strto_digits.simps digits_value.simps)
  then show ?thesis by (simp add: ncs numeral_value_def)
qed

lemma strto_scan_octal:
  assumes n: "is_numeral Octal n"
    and t: "case t of [] \<Rightarrow> True
            | c # _ \<Rightarrow> \<not> is_digit 8 c \<and> \<not> (n = ''0'' \<and> (c = CHR ''x'' \<or> c = CHR ''X''))"
  shows "strto_scan 0 (n @ t) = (False, numeral_value Octal n, length n)"
proof -
  from n obtain cs where ncs: "n = CHR ''0'' # cs"
    and dig: "list_all (is_digit 8) (CHR ''0'' # cs)"
    by (cases n) auto
  from dig have c: "is_digit 8 (CHR ''0'')" by simp
  from t have t': "case t of [] \<Rightarrow> True | c # _ \<Rightarrow> \<not> is_digit 8 c"
    by (cases t) auto
  have run: "strto_digits 8 (CHR ''0'' # cs @ t) 0 0 = (digits_value 8 n, length n)"
    using strto_digits_numeral [OF dig t'] by (simp add: ncs)
  have nox: "\<not> (case cs @ t of [] \<Rightarrow> False | d # _ \<Rightarrow> d = CHR ''x'' \<or> d = CHR ''X'')"
  proof (cases cs)
    case Nil
    with t ncs show ?thesis by (cases t) auto
  next
    case (Cons d ds)
    with dig have "is_digit 8 d" by simp
    from is_digit_not_x [OF this] Cons show ?thesis by simp
  qed
  have "strto_scan 0 (CHR ''0'' # cs @ t) = (False, digits_value 8 n, length n)"
    unfolding strto_scan_plain [OF is_digit_not_space [OF c]] Let_def
    using nox run by (simp add: ncs del: strto_digits.simps digits_value.simps)
  then show ?thesis by (simp add: ncs numeral_value_def)
qed

lemma strto_scan_hexadecimal:
  assumes n: "is_numeral Hexadecimal n"
    and t: "case t of [] \<Rightarrow> True | c # _ \<Rightarrow> \<not> is_digit 16 c"
  shows "strto_scan 0 (n @ t) = (False, numeral_value Hexadecimal n, length n)"
proof -
  from n obtain x ds where nds: "n = CHR ''0'' # x # ds" and x: "x = CHR ''x'' \<or> x = CHR ''X''"
    and ne: "ds \<noteq> []" and dig: "list_all (is_digit 16) ds"
    by (cases n; cases "tl n") auto
  have c: "is_digit 8 (CHR ''0'')" by (simp add: is_digit_def digit_of_code)
  have run: "strto_digits 16 (ds @ t) 0 0 = (digits_value 16 ds, length ds)"
    using strto_digits_numeral [OF dig t] by simp
  have "strto_scan 0 (CHR ''0'' # x # ds @ t) = (False, digits_value 16 ds, length n)"
    unfolding strto_scan_plain [OF is_digit_not_space [OF c]] Let_def
    using x ne run by (auto simp: nds simp del: strto_digits.simps digits_value.simps)
  then show ?thesis by (simp add: nds numeral_value_def)
qed

lemma strto_scan_zero_x:
  assumes x: "x = CHR ''x'' \<or> x = CHR ''X''"
    and r: "case r of [] \<Rightarrow> True | h # _ \<Rightarrow> \<not> is_digit 16 h"
  shows "strto_scan 0 (CHR ''0'' # x # r) = (False, 0, 1)"
proof -
  have c: "is_digit 8 (CHR ''0'')" by (simp add: is_digit_def digit_of_code)
  have run: "strto_digits 16 r 0 0 = (0, 0)"
    using strto_digits_stop [OF r] by simp
  show ?thesis
    unfolding strto_scan_plain [OF is_digit_not_space [OF c]] Let_def
    using x run by (auto simp del: strto_digits.simps)
qed

lemma strto_scan_stop:
  assumes n: "is_numeral f n"
    and t: "case t of [] \<Rightarrow> True
         | c # _ \<Rightarrow> \<not> is_digit (numeral_base f) c
                    \<and> \<not> (n = ''0'' \<and> (c = CHR ''x'' \<or> c = CHR ''X''))"
  shows "strto_scan 0 (n @ t) = (False, numeral_value f n, length n)"
proof (cases f)
  case Decimal
  from t Decimal have "case t of [] \<Rightarrow> True | c # _ \<Rightarrow> \<not> is_digit 10 c"
    by (cases t) auto
  from strto_scan_decimal [OF n [unfolded Decimal] this] Decimal show ?thesis by simp
next
  case Hexadecimal
  from t Hexadecimal have "case t of [] \<Rightarrow> True | c # _ \<Rightarrow> \<not> is_digit 16 c"
    by (cases t) auto
  from strto_scan_hexadecimal [OF n [unfolded Hexadecimal] this] Hexadecimal show ?thesis by simp
next
  case Octal
  from t Octal have "case t of [] \<Rightarrow> True
          | c # _ \<Rightarrow> \<not> is_digit 8 c \<and> \<not> (n = ''0'' \<and> (c = CHR ''x'' \<or> c = CHR ''X''))"
    by (cases t) auto
  from strto_scan_octal [OF n [unfolded Octal] this] Octal show ?thesis by simp
qed

lemma trailing_text_prefix:
  assumes "trailing_text n t" "1 \<le> k" "k \<le> length t"
  shows "\<not> is_numeral g (n @ take k t)"
proof -
  from assms(2,3) have "k \<in> set [1..<Suc (length t)]" by auto
  with assms(1) show ?thesis
    unfolding trailing_text_def list_all_iff by (cases g) blast+
qed

lemma trailing_text_first:
  assumes n: "is_numeral f n" and t: "trailing_text n (c # r)"
  shows "\<not> is_digit (numeral_base f) c"
proof
  assume c: "is_digit (numeral_base f) c"
  from trailing_text_prefix [OF t, of 1 f] have no: "\<not> is_numeral f (n @ [c])" by simp
  from n c have "is_numeral f (n @ [c])"
    by (cases f; cases n) auto
  with no show False ..
qed

lemma trailing_text_hex:
  assumes t: "trailing_text ''0'' (x # h # r)" and x: "x = CHR ''x'' \<or> x = CHR ''X''"
  shows "\<not> is_digit 16 h"
proof
  assume h: "is_digit 16 h"
  from trailing_text_prefix [OF t, of 2 Hexadecimal]
  have "\<not> is_numeral Hexadecimal (''0'' @ [x, h])"
    by simp
  with x h show False by auto
qed

lemma strto_scan_trailing:
  assumes n: "is_numeral f n" and t: "trailing_text n t"
  shows "strto_scan 0 (n @ t) = (False, numeral_value f n, length n)"
proof -
  from t obtain c r where tc: "t = c # r" by (cases t) (auto simp: trailing_text_def)
  from trailing_text_first [OF n t [unfolded tc]] have c: "\<not> is_digit (numeral_base f) c" .
  show ?thesis
  proof (cases "n = ''0'' \<and> (c = CHR ''x'' \<or> c = CHR ''X'')")
    case True
    then have n0: "n = ''0''" and x: "c = CHR ''x'' \<or> c = CHR ''X''" by simp_all
    have r: "case r of [] \<Rightarrow> True | h # _ \<Rightarrow> \<not> is_digit 16 h"
    proof (cases r)
      case Nil
      then show ?thesis by simp
    next
      case (Cons h r')
      from trailing_text_hex [OF t [unfolded tc n0 Cons] x] Cons show ?thesis by simp
    qed
    from n n0 have "numeral_value f n = 0"
      by (cases f) (auto simp: numeral_value_def digit_of_code)
    with strto_scan_zero_x [OF x r] show ?thesis by (simp add: n0 tc)
  next
    case False
    with c tc strto_scan_stop [OF n, of t] show ?thesis by simp
  qed
qed

lemma strto_scan_numeral:
  assumes n: "is_numeral f n" and t: "t = [] \<or> trailing_text n t"
  shows "strto_scan 0 (n @ t) = (False, numeral_value f n, length n)"
  using t strto_scan_stop [OF n, of "[]"] strto_scan_trailing [OF n, of t] by auto

lemma is_numeral_nonempty: "is_numeral f n \<Longrightarrow> n \<noteq> []"
  by (cases f) auto

lemma strtoull_numeral:
  assumes n: "is_numeral f n" and t: "t = [] \<or> trailing_text n t"
  shows "strtoull (n @ t) 0
     = (if numeral_value f n \<le> ULLONG_MAX then of_nat (numeral_value f n) else - 1,
        length n, ULLONG_MAX < numeral_value f n)"
  using strto_scan_numeral [OF n t]
  by (simp add: strtoull_def ULLONG_MAX_def not_less)

lemma unat_of_nat_u64: "v \<le> ULLONG_MAX \<Longrightarrow> unat (of_nat v :: u64) = v"
  by (simp add: unat_of_nat ULLONG_MAX_def)

lemma unat_le_ULLONG_MAX: "unat (w :: u64) \<le> ULLONG_MAX"
  using unsigned_less [of w, where ?'a = nat] by (simp add: ULLONG_MAX_def)

lemma upper_bound_le: "upper_bound maxv \<le> ULLONG_MAX"
  by (simp add: upper_bound_def unat_le_ULLONG_MAX)

lemma number_in_range:
  assumes n: "is_numeral f n"
    and lo: "unat minv \<le> numeral_value f n" and hi: "numeral_value f n \<le> upper_bound maxv"
  shows "string_to_number_ll session n minv maxv ret
           = (0, of_nat (numeral_value f n), session)"
proof -
  let ?v = "numeral_value f n"
  from hi upper_bound_le [of maxv] have v: "?v \<le> ULLONG_MAX" by simp
  from strtoull_numeral [OF n, of "[]"] v
  have s: "strtoull n 0 = (of_nat ?v, length n, False)" by simp
  from lo v have a: "minv \<le> of_nat ?v"
    by (simp add: word_le_nat_alt unat_of_nat_u64)
  from hi v have b: "maxv = 0 \<or> of_nat ?v \<le> maxv"
    by (auto simp: word_le_nat_alt unat_of_nat_u64 upper_bound_def split: if_splits)
  show ?thesis
    using s a b is_numeral_nonempty [OF n]
    by (simp add: string_to_number_ll_def)
qed

lemma number_out_of_range:
  assumes n: "is_numeral f n"
    and out: "numeral_value f n < unat minv \<or> upper_bound maxv < numeral_value f n"
  shows "string_to_number_ll session n minv maxv ret
           = (- 1, ret, snd (syntax_err session
                               (MSG_out_of_range n (unat minv) (upper_bound maxv))))"
proof -
  let ?v = "numeral_value f n"
  show ?thesis
  proof (cases "?v \<le> ULLONG_MAX")
    case True
    from strtoull_numeral [OF n, of "[]"] True
    have s: "strtoull n 0 = (of_nat ?v, length n, False)" by simp
    from out True have "\<not> (minv \<le> of_nat ?v \<and> (maxv = 0 \<or> of_nat ?v \<le> maxv))"
      by (auto simp: word_le_nat_alt unat_of_nat_u64 upper_bound_def split: if_splits)
    then show ?thesis
      using s is_numeral_nonempty [OF n]
      by (auto simp: string_to_number_ll_def upper_bound_def syntax_err_def ipset_err_def)
  next
    case False
    from strtoull_numeral [OF n, of "[]"] False
    have s: "strtoull n 0 = (- 1, length n, True)" by simp
    show ?thesis
      using s by (simp add: string_to_number_ll_def upper_bound_def syntax_err_def ipset_err_def)
  qed
qed

lemma number_trailing_text:
  assumes n: "is_numeral f n" and t: "trailing_text n t"
    and v: "numeral_value f n \<le> ULLONG_MAX"
  shows "string_to_number_ll session (n @ t) minv maxv ret
           = (- 1, ret, snd (syntax_err session (MSG_invalid_number (n @ t))))"
proof -
  from strtoull_numeral [OF n, of t] t v
  have s: "strtoull (n @ t) 0 = (of_nat (numeral_value f n), length n, False)" by simp
  from t have "length n \<noteq> length (n @ t)" by (simp add: trailing_text_def)
  with s show ?thesis
    by (simp add: string_to_number_ll_def syntax_err_def ipset_err_def)
qed

lemma number_overflow_trailing_text:
  assumes n: "is_numeral f n" and t: "trailing_text n t"
    and v: "ULLONG_MAX < numeral_value f n"
  shows "string_to_number_ll session (n @ t) minv maxv ret
           = (- 1, ret, snd (syntax_err session
                               (MSG_out_of_range (n @ t) (unat minv) (upper_bound maxv))))"
proof -
  from strtoull_numeral [OF n, of t] t v
  have s: "strtoull (n @ t) 0 = (- 1, length n, True)" by simp
  then show ?thesis
    by (simp add: string_to_number_ll_def upper_bound_def syntax_err_def ipset_err_def)
qed



lemma string_to_u8_numeral:
  assumes "is_numeral f n" "numeral_value f n \<le> 255"
  shows "string_to_u8 s n = (0, of_nat (numeral_value f n), s)"
proof -
  have "upper_bound 255 = 255" by (simp add: upper_bound_def)
  with number_in_range [OF assms(1), of 0 255 s 0] assms(2)
  have "string_to_number_ll s n 0 255 0 = (0, of_nat (numeral_value f n), s)" by simp
  moreover from assms(2) have "ucast (of_nat (numeral_value f n) :: u64)
      = (of_nat (numeral_value f n) :: u8)"
    by (simp add: unsigned_of_nat take_bit_nat_eq_self)
  ultimately show ?thesis by (simp add: string_to_u8_def)
qed




lemma string_to_cidr_32: "string_to_cidr s ''32'' 0 32 = (0, 32, s)"
  by (simp add: number_defs libc_defs)

lemma string_to_cidr_128: "string_to_cidr s ''128'' 0 128 = (0, 128, s)"
  by (simp add: number_defs libc_defs)

text \<open>
  Claim C5, as the code has it. Let \<open>n\<close> be a decimal numeral, a hexadecimal numeral
  with the prefix \<open>0x\<close> or an octal numeral with a leading zero, let \<open>v\<close> be the number
  it denotes, and let the upper bound be \<open>max\<close>, or the largest \<open>unsigned long long\<close>
  when \<open>max\<close> is 0.
  \<^item> If \<open>min \<le> v \<le>\<close> upper bound, the parser returns 0 and exactly \<open>v\<close>, and logs nothing.
  \<^item> If \<open>v < min\<close> or \<open>v >\<close> upper bound, it fails with "... is out of range min-bound"
    (\<open>OutOfRange\<close>) and leaves the result alone.
  \<^item> If \<open>n\<close> is followed by trailing text \<open>t\<close> and \<open>v\<close> fits into an \<open>unsigned long long\<close>,
    it fails with "... is invalid as number" (\<open>NotANumber\<close>), whatever the bounds are.
  \<^item> If \<open>n\<close> is followed by trailing text \<open>t\<close> and \<open>v\<close> does not fit into an
    \<open>unsigned long long\<close>, it fails with the range error, not with \<open>NotANumber\<close>.
\<close>

theorem string_to_number_ll_numerals:
  assumes "is_numeral f n"
  shows
    "(unat minv \<le> numeral_value f n \<and> numeral_value f n \<le> upper_bound maxv
      \<longrightarrow> string_to_number_ll session n minv maxv ret
            = (0, of_nat (numeral_value f n), session))
     \<and> (numeral_value f n < unat minv \<or> upper_bound maxv < numeral_value f n
      \<longrightarrow> string_to_number_ll session n minv maxv ret
            = (- 1, ret, snd (syntax_err session
                                (MSG_out_of_range n (unat minv) (upper_bound maxv)))))
     \<and> (trailing_text n t \<and> numeral_value f n \<le> ULLONG_MAX
      \<longrightarrow> string_to_number_ll session (n @ t) minv maxv ret
            = (- 1, ret, snd (syntax_err session (MSG_invalid_number (n @ t)))))
     \<and> (trailing_text n t \<and> ULLONG_MAX < numeral_value f n
      \<longrightarrow> string_to_number_ll session (n @ t) minv maxv ret
            = (- 1, ret, snd (syntax_err session
                                (MSG_out_of_range (n @ t) (unat minv) (upper_bound maxv)))))"
  using number_in_range [OF assms] number_out_of_range [OF assms]
    number_trailing_text [OF assms] number_overflow_trailing_text [OF assms]
  by blast

text \<open>
  \<open>0x1f\<close> and \<open>017\<close> within 0-255 give 31 and 15; \<open>256\<close> is out of range; \<open>12abc\<close> and
  \<open>0xg\<close> are no numbers; \<open>99999999999999999999x\<close> is out of range.
\<close>

theorem string_to_number_ll_numerals_witness:
  "is_numeral Hexadecimal ''0x1f'' \<and> numeral_value Hexadecimal ''0x1f'' = 31
   \<and> string_to_number_ll empty_session ''0x1f'' 0 255 0 = (0, 31, empty_session)
   \<and> is_numeral Octal ''017'' \<and> numeral_value Octal ''017'' = 15
   \<and> string_to_number_ll empty_session ''017'' 0 255 0 = (0, 15, empty_session)
   \<and> is_numeral Decimal ''256'' \<and> numeral_value Decimal ''256'' = 256
   \<and> string_to_number_ll empty_session ''256'' 0 255 0
       = (- 1, 0, snd (syntax_err empty_session (MSG_out_of_range ''256'' 0 255)))
   \<and> is_numeral Decimal ''12'' \<and> trailing_text ''12'' ''abc''
   \<and> string_to_number_ll empty_session ''12abc'' 0 255 0
       = (- 1, 0, snd (syntax_err empty_session (MSG_invalid_number ''12abc'')))
   \<and> is_numeral Octal ''0'' \<and> trailing_text ''0'' ''xg''
   \<and> string_to_number_ll empty_session ''0xg'' 0 255 0
       = (- 1, 0, snd (syntax_err empty_session (MSG_invalid_number ''0xg'')))
   \<and> is_numeral Decimal ''99999999999999999999''
   \<and> trailing_text ''99999999999999999999'' ''x''
   \<and> ULLONG_MAX < numeral_value Decimal ''99999999999999999999''
   \<and> string_to_number_ll empty_session ''99999999999999999999x'' 0 255 0
       = (- 1, 0, snd (syntax_err empty_session
                         (MSG_out_of_range ''99999999999999999999x'' 0 255)))"
proof -
  have h: "is_numeral Hexadecimal ''0x1f''" "numeral_value Hexadecimal ''0x1f'' = 31"
    "is_numeral Octal ''017''" "numeral_value Octal ''017'' = 15"
    "is_numeral Decimal ''256''" "numeral_value Decimal ''256'' = 256"
    "is_numeral Decimal ''12''" "numeral_value Decimal ''12'' = 12"
    "trailing_text ''12'' ''abc''"
    "is_numeral Octal ''0''" "numeral_value Octal ''0'' = 0"
    "trailing_text ''0'' ''xg''"
    by (simp_all add: is_digit_def digit_of_code numeral_value_def trailing_text_def)
  have g: "is_numeral Decimal ''99999999999999999999''"
    "numeral_value Decimal ''99999999999999999999'' = 99999999999999999999"
    "trailing_text ''99999999999999999999'' ''x''"
    by (simp_all add: is_digit_def digit_of_code numeral_value_def trailing_text_def)
  have u: "upper_bound 255 = 255" "unat (0 :: u64) = 0"
    by (simp_all add: upper_bound_def)
  from string_to_number_ll_numerals [OF h(1), where minv = 0 and maxv = 255 and session = empty_session and ret = 0] h(2) u
  have a: "string_to_number_ll empty_session ''0x1f'' 0 255 0 = (0, 31, empty_session)"
    by simp
  from string_to_number_ll_numerals [OF h(3), where minv = 0 and maxv = 255 and session = empty_session and ret = 0] h(4) u
  have b: "string_to_number_ll empty_session ''017'' 0 255 0 = (0, 15, empty_session)"
    by simp
  from string_to_number_ll_numerals [OF h(5), where minv = 0 and maxv = 255 and session = empty_session and ret = 0] h(6) u
  have c: "string_to_number_ll empty_session ''256'' 0 255 0
       = (- 1, 0, snd (syntax_err empty_session (MSG_out_of_range ''256'' 0 255)))"
    by simp
  from string_to_number_ll_numerals [OF h(7), where minv = 0 and maxv = 255 and session = empty_session and ret = 0
      and t = "''abc''"] h(8,9)
  have d: "string_to_number_ll empty_session ''12abc'' 0 255 0
       = (- 1, 0, snd (syntax_err empty_session (MSG_invalid_number ''12abc'')))"
    by (simp add: ULLONG_MAX_def)
  from string_to_number_ll_numerals [OF h(10), where minv = 0 and maxv = 255 and session = empty_session and ret = 0
      and t = "''xg''"] h(11,12)
  have e: "string_to_number_ll empty_session ''0xg'' 0 255 0
       = (- 1, 0, snd (syntax_err empty_session (MSG_invalid_number ''0xg'')))"
    by (simp add: ULLONG_MAX_def)
  from g(2) have big: "ULLONG_MAX < numeral_value Decimal ''99999999999999999999''"
    by (simp add: ULLONG_MAX_def)
  from string_to_number_ll_numerals [OF g(1), where minv = 0 and maxv = 255 and session = empty_session and ret = 0
      and t = "''x''"] g(3) big u
  have f: "string_to_number_ll empty_session ''99999999999999999999x'' 0 255 0
       = (- 1, 0, snd (syntax_err empty_session
                         (MSG_out_of_range ''99999999999999999999x'' 0 255)))"
    by simp
  from h g big a b c d e f show ?thesis by blast
qed

text \<open>
  The claim has \<open>NotANumber\<close> for every string with trailing non-numeric characters.
  The numeral \<open>99999999999999999999\<close> does not fit into an \<open>unsigned long long\<close>; followed
  by \<open>x\<close>, it is reported as out of range by \<open>string_to_number_ll\<close> and so by its caller
  \<open>string_to_u8\<close>: \<open>errno\<close> is \<open>ERANGE\<close> after the conversion, which the code tests first.
\<close>

theorem overflow_trailing_text_counterexample:
  "is_numeral Decimal ''99999999999999999999''
   \<and> trailing_text ''99999999999999999999'' ''x''
   \<and> string_to_number_ll empty_session ''99999999999999999999x'' 0 255 0
       = (- 1, 0, snd (syntax_err empty_session
                         (MSG_out_of_range ''99999999999999999999x'' 0 255)))
   \<and> string_to_number_ll empty_session ''99999999999999999999x'' 0 255 0
       \<noteq> (- 1, 0, snd (syntax_err empty_session
                          (MSG_invalid_number ''99999999999999999999x'')))
   \<and> string_to_u8 empty_session ''99999999999999999999x''
       = (- 1, 0, snd (syntax_err empty_session
                         (MSG_out_of_range ''99999999999999999999x'' 0 255)))"
proof -
  have a: "is_numeral Decimal ''99999999999999999999''"
    "trailing_text ''99999999999999999999'' ''x''"
    by (simp_all add: is_digit_def digit_of_code trailing_text_def)
  have b: "string_to_number_ll empty_session ''99999999999999999999x'' 0 255 0
       = (- 1, 0, snd (syntax_err empty_session
                         (MSG_out_of_range ''99999999999999999999x'' 0 255)))"
    by (simp add: number_defs libc_defs store_defs)
  have c: "snd (syntax_err empty_session (MSG_out_of_range ''99999999999999999999x'' 0 255))
       \<noteq> snd (syntax_err empty_session (MSG_invalid_number ''99999999999999999999x''))"
    by (simp add: store_defs)
  from b have d: "string_to_u8 empty_session ''99999999999999999999x''
       = (- 1, 0, snd (syntax_err empty_session
                         (MSG_out_of_range ''99999999999999999999x'' 0 255)))"
    by (simp add: string_to_u8_def)
  from a b c d show ?thesis by simp
qed

text \<open>
  With \<open>max = 0\<close> there is no upper bound, as the specification has it ("max may be
  unbounded", 4.2): \<open>5\<close> is accepted between 0 and 0. No caller in parse.c passes 0.
\<close>

lemma max_zero_is_unbounded:
  "string_to_number_ll empty_session ''5'' 0 0 0 = (0, 5, empty_session)"
  by (simp add: number_defs libc_defs)

section \<open>ICMP type and code\<close>

lemma is_digit_not_slash: "is_digit b c \<Longrightarrow> c \<noteq> CHR ''/''"
  by (auto simp: is_digit_def digit_of_code split: if_splits)

lemma is_numeral_no_slash: "is_numeral f n \<Longrightarrow> CHR ''/'' \<notin> set n"
proof (cases f)
  case Decimal
  assume "is_numeral f n"
  with Decimal have "list_all (is_digit 10) n" by simp
  then show ?thesis using is_digit_not_slash by (auto simp: list_all_iff)
next
  case Hexadecimal
  assume "is_numeral f n"
  with Hexadecimal have p: "take 2 n = ''0x'' \<or> take 2 n = ''0X''"
    and d: "list_all (is_digit 16) (drop 2 n)" by simp_all
  from d have "CHR ''/'' \<notin> set (drop 2 n)" using is_digit_not_slash by (auto simp: list_all_iff)
  moreover from p have "CHR ''/'' \<notin> set (take 2 n)" by auto
  ultimately show ?thesis
    using append_take_drop_id [of 2 n] set_append [of "take 2 n" "drop 2 n"] by (metis UnE)
next
  case Octal
  assume "is_numeral f n"
  with Octal have "list_all (is_digit 8) n" by simp
  then show ?thesis using is_digit_not_slash by (auto simp: list_all_iff)
qed

text \<open>
  For two numerals \<open>x\<close> and \<open>y\<close> up to 255 the text \<open>x/y\<close> is accepted and packed with
  the number after the separator in the high byte.
\<close>

lemma icmp_typecode_numerals:
  assumes x: "is_numeral fx x" "numeral_value fx x \<le> 255"
    and y: "is_numeral fy y" "numeral_value fy y \<le> 255"
  shows "parse_icmp_typecode s opt (x @ ''/'' @ y) fam
     = ipset_session_data_set s opt
         (V_u16 (push_bit 8 (of_nat (numeral_value fy y)) OR of_nat (numeral_value fx x)))"
proof -
  from is_numeral_no_slash [OF y(1)] is_numeral_nonempty [OF y(1)]
  have l: "y \<noteq> []" "last y \<noteq> CHR ''/''" by (metis, metis last_in_set)
  from cidr_separator_suffix [OF is_numeral_nonempty [OF x(1)] is_numeral_no_slash [OF x(1)] l]
  have sep: "cidr_separator (x @ CHR ''/'' # y) = Some (length x)" .
  from x(2) y(2) have u:
    "ucast (of_nat (numeral_value fx x) :: u8) = (of_nat (numeral_value fx x) :: u16)"
    "ucast (of_nat (numeral_value fy y) :: u8) = (of_nat (numeral_value fy y) :: u16)"
    by (simp_all add: unsigned_of_nat take_bit_nat_eq_self)
  show ?thesis
    using sep string_to_u8_numeral [OF x, of s] string_to_u8_numeral [OF y, of s] u
    by (simp add: parse_icmp_typecode_def)
qed

text \<open>
  Claim C2 at \<open>3/1\<close>. The comment above \<open>parse_icmp_typecode\<close>, its message and the
  documentation of \<open>ipset_parse_icmp\<close> call the text "type/code", and the claim puts the
  first number, the type, in the high byte: \<open>(3<<8)|1 = 769\<close>. The code converts the
  text after the separator into \<open>type\<close> and the text before it into \<open>code\<close>, and stores
  \<open>(1<<8)|3 = 259\<close>. The call succeeds, as the claim says.
\<close>

theorem icmp_typecode_3_1:
  "parse_icmp_typecode empty_session IPSET_OPT_PORT ''3/1'' ''ICMP''
     = ipset_session_data_set empty_session IPSET_OPT_PORT (V_u16 (push_bit 8 1 OR 3))
   \<and> (push_bit 8 1 OR 3 :: u16) = 259
   \<and> (push_bit 8 3 OR 1 :: u16) = 769"
  by (simp add: parse_icmp_typecode_def number_defs libc_defs separator_defs store_defs)

section \<open>Ethernet addresses\<close>

text \<open>
  Six octets of two hexadecimal digits each, with colons between them, are accepted,
  and the six bytes they denote are stored: on these strings the parser does what its
  error message describes.
\<close>

lemma is_hex_digit_not_x: "is_digit 16 c \<Longrightarrow> c \<noteq> CHR ''x'' \<and> c \<noteq> CHR ''X''"
  by (auto simp: is_digit_def digit_of_code split: if_splits)

lemma colon_no_digit: "\<not> is_digit b (CHR '':'')"
  by (simp add: is_digit_def digit_of_code)

lemma strto_scan_octet:
  assumes h: "is_digit 16 h1" "is_digit 16 h2"
    and r: "case rest of [] \<Rightarrow> True | c # _ \<Rightarrow> c = CHR '':''"
  shows "strto_scan 16 (h1 # h2 # rest) = (False, digits_value 16 [h1, h2], 2)"
proof -
  from r have stop: "case rest of [] \<Rightarrow> True | c # _ \<Rightarrow> \<not> is_digit 16 c"
    using colon_no_digit by (cases rest) auto
  have run: "strto_digits 16 (h1 # h2 # rest) 0 0 = (digits_value 16 [h1, h2], 2)"
    using strto_digits_numeral [of 16 "[h1, h2]" rest] h stop by simp
  have ws: "takeWhile isspace_c (h1 # h2 # rest) = []"
    using is_digit_not_space(1) [OF h(1)] by simp
  show ?thesis
    unfolding strto_scan_def ws
    using is_digit_not_space [OF h(1)] is_hex_digit_not_x [OF h(2)] run
    by (simp del: strto_digits.simps digits_value.simps)
qed

lemma digits_value_octet: "is_digit 16 h1 \<Longrightarrow> is_digit 16 h2 \<Longrightarrow> digits_value 16 [h1, h2] \<le> 255"
  by (auto simp: is_digit_def split: option.splits)

lemma strtol_octet:
  assumes h: "is_digit 16 h1" "is_digit 16 h2"
    and r: "case rest of [] \<Rightarrow> True | c # _ \<Rightarrow> c = CHR '':''"
  shows "strtol (h1 # h2 # rest) 16 = (int (digits_value 16 [h1, h2]), 2, False)"
  using strto_scan_octet [OF h r] digits_value_octet [OF h]
  by (simp add: strtol_def del: digits_value.simps)

lemma canonical_ether_accepted:
  assumes "list_all (is_digit 16) [a1, a2, b1, b2, c1, c2, d1, d2, e1, e2, f1, f2]"
  shows "ipset_parse_ether s opt
           [a1, a2, CHR '':'', b1, b2, CHR '':'', c1, c2, CHR '':'', d1, d2, CHR '':'',
            e1, e2, CHR '':'', f1, f2]
     = ipset_session_data_set s opt
         (V_ether [octet a1 a2, octet b1 b2, octet c1 c2, octet d1 d2, octet e1 e2, octet f1 f2])"
proof -
  let ?str = "[a1, a2, CHR '':'', b1, b2, CHR '':'', c1, c2, CHR '':'', d1, d2, CHR '':'',
            e1, e2, CHR '':'', f1, f2]"
  from assms have h: "is_digit 16 a1" "is_digit 16 a2" "is_digit 16 b1" "is_digit 16 b2"
    "is_digit 16 c1" "is_digit 16 c2" "is_digit 16 d1" "is_digit 16 d2"
    "is_digit 16 e1" "is_digit 16 e2" "is_digit 16 f1" "is_digit 16 f2"
    by simp_all
  note v = digits_value_octet [OF h(1,2)] digits_value_octet [OF h(3,4)]
    digits_value_octet [OF h(5,6)] digits_value_octet [OF h(7,8)]
    digits_value_octet [OF h(9,10)] digits_value_octet [OF h(11,12)]
  note o = strtol_octet [OF h(1,2)] strtol_octet [OF h(3,4)] strtol_octet [OF h(5,6)]
    strtol_octet [OF h(7,8)] strtol_octet [OF h(9,10)] strtol_octet [OF h(11,12)]
  have l0: "ether_loop ?str 0 [0, 0, 0, 0, 0, 0]
      = Some [octet a1 a2, octet b1 b2, octet c1 c2, octet d1 d2, octet e1 e2, octet f1 f2]"
    using v o(6) [of "[]"] o(5) [of "[CHR '':'', f1, f2]"]
      o(4) [of "[CHR '':'', e1, e2, CHR '':'', f1, f2]"]
      o(3) [of "[CHR '':'', d1, d2, CHR '':'', e1, e2, CHR '':'', f1, f2]"]
      o(2) [of "[CHR '':'', c1, c2, CHR '':'', d1, d2, CHR '':'', e1, e2, CHR '':'', f1, f2]"]
      o(1) [of "[CHR '':'', b1, b2, CHR '':'', c1, c2, CHR '':'', d1, d2, CHR '':'', e1, e2,
                 CHR '':'', f1, f2]"]
    by (simp add: ETH_ALEN_def octet_def del: digits_value.simps)
  have rep: "replicate ETH_ALEN (0 :: u8) = [0, 0, 0, 0, 0, 0]"
    by (simp add: ETH_ALEN_def eval_nat_numeral)
  show ?thesis
    unfolding ipset_parse_ether_def rep l0 by (simp add: ETH_ALEN_def)
qed

text \<open>
  Claim C9 at a string of length 17 with a blank and signs inside its octets:
  \<open>strtol\<close> skips the blank and reads the sign, stops two characters after the start of
  the octet, and the value is between 0 and 255. The address 01:02:00:04:05:06 is
  stored and 0 returned, where the claim has \<open>NotAnEtherAddress\<close> and nothing stored.
\<close>

theorem ether_whitespace_and_sign_accepted:
  "ipset_parse_ether empty_session IPSET_OPT_ETHER '' 1:+2:-0:04:05:06''
     = ipset_session_data_set empty_session IPSET_OPT_ETHER (V_ether [1, 2, 0, 4, 5, 6])
   \<and> fst (ipset_session_data_set empty_session IPSET_OPT_ETHER (V_ether [1, 2, 0, 4, 5, 6])) = 0"
  by (simp add: ipset_parse_ether_def ETH_ALEN_def libc_defs store_defs)
     (simp add: eval_nat_numeral)

section \<open>Ports and protocols\<close>








text \<open>
  After a successful \<open>ipset_parse_proto\<close> the store holds an 8-bit protocol, so the
  \<open>switch\<close> of \<open>ipset_parse_proto_port\<close> always has a value to read.
\<close>

lemma ipset_parse_proto_stores:
  assumes "fst (ipset_parse_proto env s IPSET_OPT_PROTO str) = 0"
  shows "\<exists>p. ipset_data_get (data (snd (ipset_parse_proto env s IPSET_OPT_PROTO str)))
               IPSET_OPT_PROTO = Some (V_u8 p)"
  using assms
  by (auto simp: ipset_parse_proto_def Let_def store_defs split: option.splits if_splits)

text \<open>
  Whenever the protocol part resolves to ICMP and the family of the session is not
  IPv4, \<open>ipset_parse_proto_port\<close> logs the message and returns 0.
\<close>

lemma proto_port_icmp_family_mismatch:
  assumes sep: "proto_separator str = Some i"
    and icmp: "ipset_parse_proto env session IPSET_OPT_PROTO (take i str) = (0, s1)"
              "ipset_data_get (data s1) IPSET_OPT_PROTO = Some (V_u8 IPPROTO_ICMP)"
    and fam: "ipset_data_family (data session) \<noteq> AF_INET"
  shows "ipset_parse_proto_port env session opt str
           = (0, snd (syntax_err s1 MSG_icmp_inet_only))"
  using assms by (simp add: ipset_parse_proto_port_def Let_def proto_defs)

text \<open>
  Claim C6 at \<open>icmp:3/1\<close> in a session of family IPv6. The message "Protocol ICMP can
  be used with family INET only" is logged and no port is stored, but the call returns
  0: the result of \<open>syntax_err\<close> is dropped and \<open>err\<close> still holds the 0 of
  \<open>ipset_parse_proto\<close>, which has stored the protocol.
\<close>

theorem icmp_with_inet6_returns_success:
  "ipset_data_family (data inet6_session) = AF_INET6
   \<and> fst (ipset_parse_proto_port example_env inet6_session IPSET_OPT_PORT ''icmp:3/1'') = 0
   \<and> report (snd (ipset_parse_proto_port example_env inet6_session IPSET_OPT_PORT ''icmp:3/1''))
       = [Error_report MSG_icmp_inet_only]
   \<and> ipset_session_data_get
        (snd (ipset_parse_proto_port example_env inet6_session IPSET_OPT_PORT ''icmp:3/1''))
        IPSET_OPT_PORT = None
   \<and> ipset_session_data_get
        (snd (ipset_parse_proto_port example_env inet6_session IPSET_OPT_PORT ''icmp:3/1''))
        IPSET_OPT_PROTO = Some (V_u8 IPPROTO_ICMP)"
  by (simp add: inet6_session_def ipset_parse_proto_port_def ipset_parse_family_def
      ipset_parse_proto_def example_env_def proto_defs libc_defs separator_defs store_defs)

section \<open>Plain addresses with a host prefix\<close>

lemma put_opt_commute:
  "copt \<noteq> opt \<Longrightarrow> put_opt opt a (put_opt copt v s) = put_opt copt v (put_opt opt a s)"
  by (simp add: put_opt_def ipset_session_data_set_def ipset_data_set_def fun_upd_twist
      insert_commute)

lemma session_data_set_put:
  "copt \<noteq> opt \<Longrightarrow>
   ipset_session_data_set (put_opt copt v s) opt a
     = (fst (ipset_session_data_set s opt a), put_opt copt v (snd (ipset_session_data_set s opt a)))"
  using put_opt_commute [of copt opt a v s]
  by (simp add: put_opt_def ipset_session_data_set_def ipset_data_set_def)

lemma ipset_err_put:
  "ipset_err (put_opt copt v s) m = (fst (ipset_err s m), put_opt copt v (snd (ipset_err s m)))"
  by (simp add: put_opt_def ipset_err_def ipset_session_data_set_def ipset_data_set_def)

lemma syntax_err_put:
  "syntax_err (put_opt copt v s) m
     = (fst (syntax_err s m), put_opt copt v (snd (syntax_err s m)))"
  by (simp add: syntax_err_def ipset_err_put)

lemma ipset_warn_put:
  "ipset_warn (put_opt copt v s) m = (fst (ipset_warn s m), put_opt copt v (snd (ipset_warn s m)))"
  by (simp add: put_opt_def ipset_warn_def ipset_session_data_set_def ipset_data_set_def)

lemma get_addrinfo_loop_put:
  "copt \<noteq> opt \<Longrightarrow>
   get_addrinfo_loop (put_opt copt v s) opt str fam len infos found err
     = (case get_addrinfo_loop s opt str fam len infos found err of
          (f, e, s') \<Rightarrow> (f, e, put_opt copt v s'))"
proof (induction infos arbitrary: s found err)
  case Nil
  then show ?case by simp
next
  case (Cons i infos)
  show ?case
    using Cons.prems Cons.IH [OF Cons.prems]
    by (simp add: session_data_set_put ipset_warn_put split: prod.splits)
qed

lemma get_addrinfo_put:
  assumes ne: "copt \<noteq> opt"
  shows "get_addrinfo env (put_opt copt v s) opt str fam
     = (case get_addrinfo env s opt str fam of (e, s') \<Rightarrow> (e, put_opt copt v s'))"
proof (cases "getaddrinfo env str fam")
  case None
  then show ?thesis
    by (simp add: get_addrinfo_def call_getaddrinfo_def syntax_err_put)
next
  case (Some infos)
  let ?len = "if fam = AF_INET then 16 else 28 :: nat"
  obtain f e s' where l: "get_addrinfo_loop s opt str fam ?len infos 0 0 = (f, e, s')"
    by (cases "get_addrinfo_loop s opt str fam ?len infos 0 0") auto
  from get_addrinfo_loop_put [OF ne, of v s str fam ?len infos 0 0] l
  have l': "get_addrinfo_loop (put_opt copt v s) opt str fam ?len infos 0 0
              = (f, e, put_opt copt v s')"
    by simp
  show ?thesis
    unfolding get_addrinfo_def call_getaddrinfo_def Let_def
    using Some l l' by (simp add: syntax_err_put split: prod.splits)
qed

lemma parse_ipaddr_plain:
  assumes "cidr_separator h = None" "range_separator h = None"
  shows "parse_ipaddr env s opt h fam
     = (case get_addrinfo env s opt h fam of (aerr, s1) \<Rightarrow> (parse_ipaddr_out aerr 0, s1))"
  using assms by (simp add: parse_ipaddr_def)

lemma parse_ipaddr_cidr:
  assumes "cidr_separator str = Some i"
    and "string_to_cidr s (drop (Suc i) str) 0 (if fam = AF_INET then 32 else 128) = (0, m, s)"
  shows "parse_ipaddr env s opt str fam
     = (case get_addrinfo env
               (put_opt (if opt = IPSET_OPT_IP then IPSET_OPT_CIDR else IPSET_OPT_CIDR2) (V_u8 m) s)
               opt (take i str) fam of
          (aerr, s1) \<Rightarrow> (parse_ipaddr_out aerr 0, s1))"
  using assms
  by (simp add: parse_ipaddr_def Let_def put_opt_def ipset_session_data_set_def
      ipset_data_set_def)

lemma parse_ipaddr_host_prefix:
  assumes opt: "opt = IPSET_OPT_IP \<or> opt = IPSET_OPT_IP_TO \<or> opt = IPSET_OPT_IP2"
    and h: "h \<noteq> []" "CHR ''/'' \<notin> set h" "CHR ''-'' \<notin> set h"
  shows "parse_ipaddr env s opt (h @ (if fam = AF_INET then ''/32'' else ''/128'')) fam
    = (case parse_ipaddr env s opt h fam of
         (err, s') \<Rightarrow>
           (err, put_opt (if opt = IPSET_OPT_IP then IPSET_OPT_CIDR else IPSET_OPT_CIDR2)
                   (V_u8 (if fam = AF_INET then 32 else 128)) s'))"
proof -
  define copt where "copt = (if opt = IPSET_OPT_IP then IPSET_OPT_CIDR else IPSET_OPT_CIDR2)"
  define m :: u8 where "m = (if fam = AF_INET then 32 else 128)"
  define sfx where "sfx = (if fam = AF_INET then ''32'' else ''128'')"
  from opt have ne: "copt \<noteq> opt" by (auto simp: copt_def)
  have plain: "cidr_separator h = None" "range_separator h = None"
    using h by (simp_all add: cidr_separator_absent range_separator_absent)
  have sfx: "sfx \<noteq> []" "last sfx \<noteq> CHR ''/''" by (simp_all add: sfx_def)
  have str: "h @ (if fam = AF_INET then ''/32'' else ''/128'') = h @ CHR ''/'' # sfx"
    by (simp add: sfx_def)
  have sep: "cidr_separator (h @ CHR ''/'' # sfx) = Some (length h)"
    using cidr_separator_suffix [OF h(1,2) sfx] .
  have num: "string_to_cidr s (drop (Suc (length h)) (h @ CHR ''/'' # sfx)) 0
               (if fam = AF_INET then 32 else 128) = (0, m, s)"
    by (simp add: sfx_def m_def string_to_cidr_32 string_to_cidr_128)
  obtain aerr s1 where g: "get_addrinfo env s opt h fam = (aerr, s1)"
    by (cases "get_addrinfo env s opt h fam") auto
  from get_addrinfo_put [OF ne, of env "V_u8 m" s h fam] g
  have g': "get_addrinfo env (put_opt copt (V_u8 m) s) opt h fam = (aerr, put_opt copt (V_u8 m) s1)"
    by simp
  have lhs: "parse_ipaddr env s opt (h @ CHR ''/'' # sfx) fam
               = (parse_ipaddr_out aerr 0, put_opt copt (V_u8 m) s1)"
    using parse_ipaddr_cidr [OF sep num, of env opt] g' by (simp add: copt_def)
  have rhs: "parse_ipaddr env s opt h fam = (parse_ipaddr_out aerr 0, s1)"
    using parse_ipaddr_plain [OF plain, of env s opt fam] g by simp
  show ?thesis
    unfolding str lhs rhs by (simp add: copt_def m_def)
qed

text \<open>
  Claim C7, as the code has it. Let \<open>h\<close> be a non-empty text without \<open>/\<close> and \<open>-\<close>, and
  let the suffix be \<open>/32\<close> when the family of the session is IPv4 (or unspecified, which
  defaults to IPv4) and \<open>/128\<close> when it is IPv6. In the variant that requires a plain
  address, parsing \<open>h\<close> with the suffix is accepted like \<open>h\<close> alone: it returns the same
  code and leaves the same store and log, except that it also stores the prefix length
  32 (or 128) under the companion CIDR option and raises that option's set-bit.
\<close>

theorem plain_host_prefix_stores_cidr:
  assumes opt: "opt = IPSET_OPT_IP \<or> opt = IPSET_OPT_IP_TO \<or> opt = IPSET_OPT_IP2"
    and h: "h \<noteq> []" "CHR ''/'' \<notin> set h" "CHR ''-'' \<notin> set h"
  shows "parse_ip env session opt
           (h @ (if ipset_data_family (data session) = AF_INET6 then ''/128'' else ''/32''))
           IPADDR_PLAIN
    = (case parse_ip env session opt h IPADDR_PLAIN of
         (err, s) \<Rightarrow>
           (err, snd (ipset_session_data_set s
                        (if opt = IPSET_OPT_IP then IPSET_OPT_CIDR else IPSET_OPT_CIDR2)
                        (V_u8 (if ipset_data_family (data session) = AF_INET6 then 128 else 32)))))"
proof -
  define fam where
    "fam = (if ipset_data_family (data session) = AF_UNSPEC then AF_INET
            else ipset_data_family (data session))"
  define s0 where
    "s0 = (if ipset_data_family (data session) = AF_UNSPEC
           then session\<lparr>data := snd (ipset_data_set (data session) IPSET_OPT_FAMILY (V_family AF_INET))\<rparr>
           else session)"
  define str where "str = h @ (if fam = AF_INET then ''/32'' else ''/128'')"
  have fam6: "(ipset_data_family (data session) = AF_INET6) = (fam \<noteq> AF_INET)"
    by (cases "ipset_data_family (data session)") (simp_all add: fam_def)
  have plain: "cidr_separator h = None" "range_separator h = None"
    using h by (simp_all add: cidr_separator_absent range_separator_absent)
  have "CHR ''-'' \<notin> set str" using h(3) by (simp add: str_def)
  then have r: "range_separator str = None" by (rule range_separator_absent)
  have c: "cidr_separator str = Some (length h)"
    using cidr_separator_suffix [OF h(1,2), of "''32''"]
      cidr_separator_suffix [OF h(1,2), of "''128''"]
    by (simp add: str_def)
  have host: "cidr_hostaddr str fam"
    using c by (simp add: cidr_hostaddr_def) (simp add: str_def)
  have lhs: "parse_ip env session opt str IPADDR_PLAIN = parse_ipaddr env s0 opt str fam"
    using r c host by (simp add: parse_ip_def Let_def fam_def s0_def)
  have rhs: "parse_ip env session opt h IPADDR_PLAIN = parse_ipaddr env s0 opt h fam"
    using plain by (simp add: parse_ip_def Let_def fam_def s0_def)
  from parse_ipaddr_host_prefix [OF opt h, of env s0 fam]
  have "parse_ip env session opt str IPADDR_PLAIN
    = (case parse_ip env session opt h IPADDR_PLAIN of
         (err, s) \<Rightarrow>
           (err, put_opt (if opt = IPSET_OPT_IP then IPSET_OPT_CIDR else IPSET_OPT_CIDR2)
                   (V_u8 (if fam = AF_INET then 32 else 128)) s))"
    unfolding lhs rhs unfolding str_def .
  then show ?thesis
    by (cases "fam = AF_INET"; cases "opt = IPSET_OPT_IP") (simp_all add: str_def fam6 put_opt_def)
qed

text \<open>
  \<open>192.0.2.10/32\<close> in an empty session and \<open>2001:db8::1/128\<close> in a session of family IPv6.
\<close>

theorem plain_host_prefix_stores_cidr_witness:
  "parse_ip example_env empty_session IPSET_OPT_IP ''192.0.2.10/32'' IPADDR_PLAIN
     = (0, snd (ipset_session_data_set
                  (snd (parse_ip example_env empty_session IPSET_OPT_IP ''192.0.2.10'' IPADDR_PLAIN))
                  IPSET_OPT_CIDR (V_u8 32)))
   \<and> fst (parse_ip example_env empty_session IPSET_OPT_IP ''192.0.2.10'' IPADDR_PLAIN) = 0
   \<and> ipset_session_data_get
        (snd (parse_ip example_env empty_session IPSET_OPT_IP ''192.0.2.10'' IPADDR_PLAIN))
        IPSET_OPT_IP = Some (V_addr (In4 0xC000020A))
   \<and> parse_ip example_env inet6_session IPSET_OPT_IP ''2001:db8::1/128'' IPADDR_PLAIN
     = (0, snd (ipset_session_data_set
                  (snd (parse_ip example_env inet6_session IPSET_OPT_IP ''2001:db8::1'' IPADDR_PLAIN))
                  IPSET_OPT_CIDR (V_u8 128)))"
proof -
  have a: "fst (parse_ip example_env empty_session IPSET_OPT_IP ''192.0.2.10'' IPADDR_PLAIN) = 0"
    by (simp add: addr_defs example_env_def number_defs libc_defs separator_defs store_defs)
  have b: "ipset_session_data_get
        (snd (parse_ip example_env empty_session IPSET_OPT_IP ''192.0.2.10'' IPADDR_PLAIN))
        IPSET_OPT_IP = Some (V_addr (In4 0xC000020A))"
    by (simp add: addr_defs example_env_def number_defs libc_defs separator_defs store_defs)
  have c: "fst (parse_ip example_env inet6_session IPSET_OPT_IP ''2001:db8::1'' IPADDR_PLAIN) = 0"
    by (simp add: addr_defs inet6_session_def ipset_parse_family_def example_env_def
        number_defs libc_defs separator_defs store_defs)
  have f4: "ipset_data_family (data empty_session) \<noteq> AF_INET6"
    by (simp add: store_defs)
  have f6: "ipset_data_family (data inet6_session) = AF_INET6"
    by (simp add: inet6_session_def ipset_parse_family_def store_defs)
  from plain_host_prefix_stores_cidr [of IPSET_OPT_IP "''192.0.2.10''" example_env empty_session]
       f4 a
  have d: "parse_ip example_env empty_session IPSET_OPT_IP ''192.0.2.10/32'' IPADDR_PLAIN
     = (0, snd (ipset_session_data_set
                  (snd (parse_ip example_env empty_session IPSET_OPT_IP ''192.0.2.10'' IPADDR_PLAIN))
                  IPSET_OPT_CIDR (V_u8 32)))"
    by (simp split: prod.splits)
  from plain_host_prefix_stores_cidr [of IPSET_OPT_IP "''2001:db8::1''" example_env inet6_session]
       f6 c
  have e: "parse_ip example_env inet6_session IPSET_OPT_IP ''2001:db8::1/128'' IPADDR_PLAIN
     = (0, snd (ipset_session_data_set
                  (snd (parse_ip example_env inet6_session IPSET_OPT_IP ''2001:db8::1'' IPADDR_PLAIN))
                  IPSET_OPT_CIDR (V_u8 128)))"
    by (simp split: prod.splits)
  from a b d e show ?thesis by blast
qed

text \<open>
  Both forms succeed, but the stores differ: only \<open>192.0.2.10/32\<close> leaves a prefix
  length under the CIDR option.
\<close>

theorem plain_address_cidr_counterexample:
  "fst (parse_ip example_env empty_session IPSET_OPT_IP ''192.0.2.10/32'' IPADDR_PLAIN) = 0
   \<and> fst (parse_ip example_env empty_session IPSET_OPT_IP ''192.0.2.10'' IPADDR_PLAIN) = 0
   \<and> ipset_session_data_get
        (snd (parse_ip example_env empty_session IPSET_OPT_IP ''192.0.2.10/32'' IPADDR_PLAIN))
        IPSET_OPT_CIDR = Some (V_u8 32)
   \<and> ipset_session_data_get
        (snd (parse_ip example_env empty_session IPSET_OPT_IP ''192.0.2.10'' IPADDR_PLAIN))
        IPSET_OPT_CIDR = None
   \<and> parse_ip example_env empty_session IPSET_OPT_IP ''192.0.2.10/32'' IPADDR_PLAIN
       \<noteq> parse_ip example_env empty_session IPSET_OPT_IP ''192.0.2.10'' IPADDR_PLAIN"
proof -
  have a: "fst (parse_ip example_env empty_session IPSET_OPT_IP ''192.0.2.10/32'' IPADDR_PLAIN) = 0"
    by (simp add: addr_defs example_env_def number_defs libc_defs separator_defs store_defs)
  have b: "fst (parse_ip example_env empty_session IPSET_OPT_IP ''192.0.2.10'' IPADDR_PLAIN) = 0"
    by (simp add: addr_defs example_env_def number_defs libc_defs separator_defs store_defs)
  have c: "ipset_session_data_get
        (snd (parse_ip example_env empty_session IPSET_OPT_IP ''192.0.2.10/32'' IPADDR_PLAIN))
        IPSET_OPT_CIDR = Some (V_u8 32)"
    by (simp add: addr_defs example_env_def number_defs libc_defs separator_defs store_defs)
  have d: "ipset_session_data_get
        (snd (parse_ip example_env empty_session IPSET_OPT_IP ''192.0.2.10'' IPADDR_PLAIN))
        IPSET_OPT_CIDR = None"
    by (simp add: addr_defs example_env_def number_defs libc_defs separator_defs store_defs)
  from c d have "parse_ip example_env empty_session IPSET_OPT_IP ''192.0.2.10/32'' IPADDR_PLAIN
       \<noteq> parse_ip example_env empty_session IPSET_OPT_IP ''192.0.2.10'' IPADDR_PLAIN"
    by auto
  with a b c d show ?thesis by blast
qed

section \<open>Set names as elements\<close>











section \<open>Element dispatch\<close>

lemma join_elems_nonempty: "wf_parts ps \<Longrightarrow> join_elems ps \<noteq> []"
  by (induction ps rule: join_elems.induct) (auto simp: wf_parts_def wf_part_def)

lemma join_elems_last: "wf_parts ps \<Longrightarrow> last (join_elems ps) \<noteq> CHR '',''"
proof (induction ps rule: join_elems.induct)
  case 1
  then show ?case by (simp add: wf_parts_def)
next
  case (2 p)
  then have "p \<noteq> []" "CHR '','' \<notin> set p" by (simp_all add: wf_parts_def wf_part_def)
  then show ?case using last_in_set [of p] by (metis join_elems.simps(2))
next
  case (3 p q ps)
  then have w: "wf_parts (q # ps)" by (simp add: wf_parts_def)
  from "3.IH" [OF w] join_elems_nonempty [OF w] show ?case by simp
qed

lemma elem_separator_join:
  assumes "wf_parts (p # q # ps)"
  shows "elem_separator (join_elems (p # q # ps)) = Some (length p)"
proof -
  from assms have p: "CHR '','' \<notin> set p" "p \<noteq> []" and w: "wf_parts (q # ps)"
    by (simp_all add: wf_parts_def wf_part_def)
  from elem_separator_found [OF p join_elems_nonempty [OF w] join_elems_last [OF w]]
  show ?thesis by simp
qed

lemma elem_separator_one_part: "wf_parts [p] \<Longrightarrow> elem_separator p = None"
  by (simp add: wf_parts_def wf_part_def elem_separator_absent)

lemma join_elems_split:
  "take (length p) (join_elems (p # q # ps)) = p"
  "drop (Suc (length p)) (join_elems (p # q # ps)) = join_elems (q # ps)"
  by simp_all

lemma wf_parts_tl: "wf_parts (p # q # ps) \<Longrightarrow> wf_parts (q # ps)"
  by (simp add: wf_parts_def)

lemma parse_elem_too_many_one:
  assumes t: "ipset_session_data_get session IPSET_OPT_TYPE = Some (V_type t)"
    and d: "type_dimension t = IPSET_DIM_ONE" and w: "wf_parts (p # q # ps)"
  shows "ipset_parse_elem env session optional (join_elems (p # q # ps))
    = (case type_compat_parse_elem t of
         Some fn \<Rightarrow> call_parsefn env fn session (elem_opt (type_elem t IPSET_DIM_ONE))
                      (join_elems (p # q # ps))
       | None \<Rightarrow> syntax_err session
                    (MSG_elem_separator_none (join_elems (p # q # ps)) (type_name t)))"
  using t d elem_separator_join [OF w]
  by (simp add: ipset_parse_elem_def del: join_elems.simps)

lemma parse_elem_too_many_two:
  assumes t: "ipset_session_data_get session IPSET_OPT_TYPE = Some (V_type t)"
    and d: "type_dimension t = IPSET_DIM_TWO" and w: "wf_parts (p # q # r # ps)"
  shows "ipset_parse_elem env session optional (join_elems (p # q # r # ps))
    = syntax_err session (MSG_two_separators (join_elems (p # q # r # ps)) (type_name t))"
proof -
  have a: "elem_separator (join_elems (q # r # ps)) = Some (length q)"
    using elem_separator_join [OF wf_parts_tl [OF w]] .
  show ?thesis
    using t d elem_separator_join [OF w] a join_elems_split [of p q "r # ps"]
    by (simp add: ipset_parse_elem_def ipset_parse_elem_third_def del: join_elems.simps)
qed

lemma parse_elem_too_many_three:
  assumes t: "ipset_session_data_get session IPSET_OPT_TYPE = Some (V_type t)"
    and d: "type_dimension t = IPSET_DIM_THREE" and w: "wf_parts (p # q # r # u # ps)"
  shows "ipset_parse_elem env session optional (join_elems (p # q # r # u # ps))
    = syntax_err session (MSG_three_separators (join_elems (p # q # r # u # ps)) (type_name t))"
proof -
  have a: "elem_separator (join_elems (q # r # u # ps)) = Some (length q)"
    using elem_separator_join [OF wf_parts_tl [OF w]] .
  have b: "elem_separator (join_elems (r # u # ps)) = Some (length r)"
    using elem_separator_join [OF wf_parts_tl [OF wf_parts_tl [OF w]]] .
  show ?thesis
    using t d elem_separator_join [OF w] a b join_elems_split [of p q "r # u # ps"]
      join_elems_split [of q r "u # ps"]
    by (simp add: ipset_parse_elem_def ipset_parse_elem_third_def ipset_parse_elem_fields_def
        del: join_elems.simps)
qed

lemma parse_elem_second_missing:
  assumes t: "ipset_session_data_get session IPSET_OPT_TYPE = Some (V_type t)"
    and d: "type_dimension t \<noteq> IPSET_DIM_ONE" and w: "wf_parts [p]"
  shows "ipset_parse_elem env session IPSET_OPT_NONE (join_elems [p])
    = syntax_err session (MSG_second_missing (join_elems [p]))"
  using t d elem_separator_one_part [OF w]
  by (cases "type_dimension t") (simp_all add: ipset_parse_elem_def)

lemma parse_elem_third_missing:
  assumes t: "ipset_session_data_get session IPSET_OPT_TYPE = Some (V_type t)"
    and d: "type_dimension t = IPSET_DIM_THREE" and w: "wf_parts [p, q]"
  shows "ipset_parse_elem env session IPSET_OPT_NONE (join_elems [p, q])
    = syntax_err session (MSG_third_missing (join_elems [p, q]))"
proof -
  from w have q: "elem_separator q = None"
    by (simp add: wf_parts_def wf_part_def elem_separator_absent)
  show ?thesis
    using t d elem_separator_join [OF w] q join_elems_split [of p q "[]"]
    by (simp add: ipset_parse_elem_def ipset_parse_elem_third_def del: join_elems.simps)
       simp
qed

text \<open>
  Claim C3, as the code has it. Let the type stored in the session have dimension
  \<open>d\<close> (1, 2 or 3; \<open>Suc (dim_index (type_dimension t))\<close>), and let the element text be
  made of \<open>n\<close> non-empty parts with the separator between them.
  \<^item> If \<open>n > d\<close>, and the type has no compatibility parser when \<open>d = 1\<close>, the dispatcher
    fails before any field parser is called, with the message of its dimension:
    "Elem separator in ..., but settype ... supports none" (\<open>d = 1\<close>), "Two elem
    separators ..." (\<open>d = 2\<close>, \<open>TooManyElements\<close>), "Three elem separators ..." (\<open>d = 3\<close>).
  \<^item> If \<open>n < d\<close> and partial elements are not allowed, it fails with "Second element
    is missing" (\<open>n = 1\<close>) or "Third element is missing" (\<open>n = 2\<close>): \<open>MissingElement\<close>.
  \<^item> If \<open>d = 1\<close>, \<open>n > 1\<close> and the type has a compatibility parser, the result is that
    parser's result on the whole text.
\<close>

theorem elem_dimension_enforced:
  assumes t: "ipset_session_data_get session IPSET_OPT_TYPE = Some (V_type t)"
    and w: "wf_parts ps"
  shows
    "(Suc (dim_index (type_dimension t)) < length ps
        \<and> (type_dimension t = IPSET_DIM_ONE \<longrightarrow> type_compat_parse_elem t = None)
      \<longrightarrow> ipset_parse_elem env session optional (join_elems ps)
          = syntax_err session
              (case type_dimension t of
                 IPSET_DIM_ONE \<Rightarrow> MSG_elem_separator_none (join_elems ps) (type_name t)
               | IPSET_DIM_TWO \<Rightarrow> MSG_two_separators (join_elems ps) (type_name t)
               | IPSET_DIM_THREE \<Rightarrow> MSG_three_separators (join_elems ps) (type_name t)))
     \<and> (length ps < Suc (dim_index (type_dimension t))
      \<longrightarrow> ipset_parse_elem env session IPSET_OPT_NONE (join_elems ps)
          = syntax_err session
              (if length ps = 1 then MSG_second_missing (join_elems ps)
               else MSG_third_missing (join_elems ps)))
     \<and> (type_dimension t = IPSET_DIM_ONE \<and> 1 < length ps
      \<longrightarrow> (\<forall>fn. type_compat_parse_elem t = Some fn
            \<longrightarrow> ipset_parse_elem env session optional (join_elems ps)
                = call_parsefn env fn session (elem_opt (type_elem t IPSET_DIM_ONE))
                    (join_elems ps)))"
proof (intro conjI impI allI)
  assume a: "Suc (dim_index (type_dimension t)) < length ps
        \<and> (type_dimension t = IPSET_DIM_ONE \<longrightarrow> type_compat_parse_elem t = None)"
  show "ipset_parse_elem env session optional (join_elems ps)
          = syntax_err session
              (case type_dimension t of
                 IPSET_DIM_ONE \<Rightarrow> MSG_elem_separator_none (join_elems ps) (type_name t)
               | IPSET_DIM_TWO \<Rightarrow> MSG_two_separators (join_elems ps) (type_name t)
               | IPSET_DIM_THREE \<Rightarrow> MSG_three_separators (join_elems ps) (type_name t))"
  proof (cases "type_dimension t")
    case IPSET_DIM_ONE
    with a obtain p q qs where ps: "ps = p # q # qs"
      by (cases ps rule: join_elems.cases) auto
    from IPSET_DIM_ONE a have "type_compat_parse_elem t = None" by simp
    with parse_elem_too_many_one [OF t IPSET_DIM_ONE w [unfolded ps], of env optional]
    show ?thesis unfolding ps by (simp add: IPSET_DIM_ONE del: join_elems.simps)
  next
    case IPSET_DIM_TWO
    with a have "2 < length ps" by simp
    then obtain p q r qs where ps: "ps = p # q # r # qs"
      by (cases ps; cases "tl ps"; cases "tl (tl ps)") auto
    from parse_elem_too_many_two [OF t IPSET_DIM_TWO w [unfolded ps], of env optional]
    show ?thesis unfolding ps by (simp add: IPSET_DIM_TWO del: join_elems.simps)
  next
    case IPSET_DIM_THREE
    with a have "3 < length ps" by simp
    then obtain p q r u qs where ps: "ps = p # q # r # u # qs"
      by (cases ps; cases "tl ps"; cases "tl (tl ps)"; cases "tl (tl (tl ps))") auto
    from parse_elem_too_many_three [OF t IPSET_DIM_THREE w [unfolded ps], of env optional]
    show ?thesis unfolding ps by (simp add: IPSET_DIM_THREE del: join_elems.simps)
  qed
next
  assume a: "length ps < Suc (dim_index (type_dimension t))"
  from w have ne: "ps \<noteq> []" by (simp add: wf_parts_def)
  show "ipset_parse_elem env session IPSET_OPT_NONE (join_elems ps)
          = syntax_err session
              (if length ps = 1 then MSG_second_missing (join_elems ps)
               else MSG_third_missing (join_elems ps))"
  proof (cases "length ps = 1")
    case True
    then obtain p where ps: "ps = [p]" by (cases ps) auto
    from a True have d: "type_dimension t \<noteq> IPSET_DIM_ONE"
      by (cases "type_dimension t") auto
    from parse_elem_second_missing [OF t d w [unfolded ps], of env]
    show ?thesis unfolding ps by simp
  next
    case False
    from ne have "length ps \<noteq> 0" by simp
    with False have "2 \<le> length ps" by arith
    with a have l: "length ps = 2" and d: "type_dimension t = IPSET_DIM_THREE"
      by (cases "type_dimension t"; simp)+
    then obtain p q where ps: "ps = [p, q]"
      by (cases ps; cases "tl ps") auto
    from parse_elem_third_missing [OF t d w [unfolded ps], of env]
    show ?thesis unfolding ps by (simp del: join_elems.simps)
  qed
next
  fix fn
  assume a: "type_dimension t = IPSET_DIM_ONE \<and> 1 < length ps"
    and c: "type_compat_parse_elem t = Some fn"
  then obtain p q qs where ps: "ps = p # q # qs"
    by (cases ps rule: join_elems.cases) auto
  from a have d: "type_dimension t = IPSET_DIM_ONE" by simp
  from parse_elem_too_many_one [OF t d w [unfolded ps], of env optional] c
  show "ipset_parse_elem env session optional (join_elems ps)
                = call_parsefn env fn session (elem_opt (type_elem t IPSET_DIM_ONE))
                    (join_elems ps)"
    unfolding ps by (simp del: join_elems.simps)
qed

text \<open>
  The two-dimensional type of an address and a port: \<open>a,b,c\<close> fails with "Two elem
  separators", \<open>a\<close> with "Second element is missing".
\<close>

theorem elem_dimension_enforced_witness:
  "ipset_session_data_get (session_of_type type_ip_port) IPSET_OPT_TYPE = Some (V_type type_ip_port)
   \<and> wf_parts [''a'', ''b'', ''c''] \<and> wf_parts [''a'']
   \<and> type_dimension type_ip_port = IPSET_DIM_TWO
   \<and> ipset_parse_elem example_env (session_of_type type_ip_port) IPSET_OPT_NONE ''a,b,c''
       = syntax_err (session_of_type type_ip_port) (MSG_two_separators ''a,b,c'' ''hash:ip,port'')
   \<and> ipset_parse_elem example_env (session_of_type type_ip_port) IPSET_OPT_NONE ''a''
       = syntax_err (session_of_type type_ip_port) (MSG_second_missing ''a'')
   \<and> fst (syntax_err (session_of_type type_ip_port) (MSG_second_missing ''a'')) = - 1"
proof -
  have h: "ipset_session_data_get (session_of_type type_ip_port) IPSET_OPT_TYPE
             = Some (V_type type_ip_port)"
    "wf_parts [''a'', ''b'', ''c'']" "wf_parts [''a'']"
    "type_dimension type_ip_port = IPSET_DIM_TWO"
    by (simp_all add: session_of_type_def store_defs wf_parts_def wf_part_def type_ip_port_def)
  from elem_dimension_enforced [OF h(1) h(2), of example_env IPSET_OPT_NONE]
       elem_dimension_enforced [OF h(1) h(3), of example_env IPSET_OPT_NONE] h(4)
  have "ipset_parse_elem example_env (session_of_type type_ip_port) IPSET_OPT_NONE ''a,b,c''
       = syntax_err (session_of_type type_ip_port) (MSG_two_separators ''a,b,c'' ''hash:ip,port'')"
    "ipset_parse_elem example_env (session_of_type type_ip_port) IPSET_OPT_NONE ''a''
       = syntax_err (session_of_type type_ip_port) (MSG_second_missing ''a'')"
    by (simp_all add: type_ip_port_def)
  with h show ?thesis by (simp add: syntax_err_def ipset_err_def)
qed

text \<open>
  The one-dimensional type of set names has a compatibility parser: the three parts of
  \<open>myset,before,otherset\<close> are accepted by the dispatcher.
\<close>

theorem compat_element_accepted:
  "type_dimension type_list_set = IPSET_DIM_ONE
   \<and> ipset_session_data_get (session_of_type type_list_set) IPSET_OPT_TYPE = Some (V_type type_list_set)
   \<and> fst (ipset_parse_elem example_env (session_of_type type_list_set) IPSET_OPT_NONE
            ''myset,before,otherset'') = 0"
  by (simp add: ipset_parse_elem_def session_of_type_def type_list_set_def
      ipset_parse_name_compat_def example_env_def separator_defs store_defs)

text \<open>
  With an empty part the count is not enforced: \<open>a,,b\<close> has three parts, but the second
  separator opens the text \<open>,b\<close>, where \<open>ipset_strchr\<close> finds none, and a two-dimensional
  type passes \<open>,b\<close> to its second parser.
\<close>

lemma empty_middle_part_accepted:
  "fst (ipset_parse_elem example_env (session_of_type type_name_pair) IPSET_OPT_NONE ''a,,b'') = 0
   \<and> ipset_session_data_get
        (snd (ipset_parse_elem example_env (session_of_type type_name_pair) IPSET_OPT_NONE ''a,,b''))
        IPSET_OPT_SETNAME2 = Some (V_str '',b'')"
  by (simp add: ipset_parse_elem_def ipset_parse_elem_third_def ipset_parse_elem_fields_def
      parse_elem_def ipset_parse_setname_def session_of_type_def type_name_pair_def
      example_env_def separator_defs store_defs)

section \<open>Options given twice\<close>

text \<open>
  Claim C4 at the timeout, given as \<open>10\<close> and then as \<open>20\<close> through \<open>ipset_call_parser\<close>.
  The second call finds the set-bit raised and logs "timeout already specified", but
  does not return: the parser runs, the call returns 0 and the stored value is 20,
  where the claim has a failure and the value 10.
\<close>

theorem second_assignment_overwrites:
  "fst (ipset_call_parser example_env empty_session PARSE_uint32 ''timeout''
          IPSET_OPT_TIMEOUT ''10'') = 0
   \<and> ipset_session_data_get timeout_10_session IPSET_OPT_TIMEOUT = Some (V_u32 10)
   \<and> ipset_data_flags_test (data timeout_10_session) IPSET_OPT_TIMEOUT
   \<and> fst (ipset_call_parser example_env timeout_10_session PARSE_uint32 ''timeout''
            IPSET_OPT_TIMEOUT ''20'') = 0
   \<and> ipset_session_data_get
        (snd (ipset_call_parser example_env timeout_10_session PARSE_uint32 ''timeout''
                IPSET_OPT_TIMEOUT ''20''))
        IPSET_OPT_TIMEOUT = Some (V_u32 20)
   \<and> report (snd (ipset_call_parser example_env timeout_10_session PARSE_uint32 ''timeout''
                     IPSET_OPT_TIMEOUT ''20''))
       = [Error_report (MSG_already_specified ''timeout'')]"
  by (simp add: timeout_10_session_def ipset_call_parser_def ipset_parse_uint32_def
      number_defs libc_defs store_defs)

end
